theory Spec2Isabelle
  imports Complex_Main "HOL-Library.Multiset" "HOL-Library.Sublist"
begin

section \<open>Event records and text\<close>

text \<open>
  Strings are byte lists in UTF-8, so that a character outside ASCII of the JavaScript
  source is the sequence of its UTF-8 bytes. The program never measures the length of a
  string, it only concatenates them.
\<close>

type_synonym timestamp = int
type_synonym chat_id = int

text \<open>
  A row of the table \<^verbatim>\<open>event_details\<close>, with the columns the program reads. The
  identifier column \<^verbatim>\<open>id\<close> is called \<open>id_field\<close> here. Moments in time are integers
  on one common scale. The like count is an integer, as the store ranks by it; the
  numbers that are only shown are rationals, as a JSON number is a decimal fraction.
\<close>

record event =
  id_field :: string
  event_title :: string
  event_description :: string
  event_location :: string
  event_startdate :: timestamp
  event_enddate :: timestamp
  event_duration :: rat
  team_size :: rat
  isEventFree :: bool
  event_price :: rat
  event_registration_startdate :: timestamp
  event_registration_enddate :: timestamp
  redirection_link :: "string option"
  organizer_name :: string
  organizer_email :: string
  organizer_contact :: string
  event_category :: string
  event_likes :: int
  is_approved :: bool
  created_at :: timestamp

subsection \<open>Numbers in template literals\<close>

text \<open>
  \<open>show_nat\<close> prints the length of an array, which JavaScript prints digit by digit. The
  text JavaScript prints for a number received from the store (a double, parsed from
  JSON) is left to a parameter \<open>num\<close> of the presenter.
\<close>

definition digit_char :: "nat \<Rightarrow> char" where
  "digit_char d = ''0123456789'' ! d"

fun show_nat :: "nat \<Rightarrow> string" where
  "show_nat n =
     (if n < 10 then [digit_char n] else show_nat (n div 10) @ [digit_char (n mod 10)])"

declare show_nat.simps [simp del]

subsection \<open>The symbols of the messages\<close>

definition magnifier :: string where
  "magnifier = [CHR 0xF0, CHR 0x9F, CHR 0x94, CHR 0x8D]"

definition pushpin :: string where
  "pushpin = [CHR 0xF0, CHR 0x9F, CHR 0x93, CHR 0x8D]"

definition mailbox :: string where
  "mailbox = [CHR 0xF0, CHR 0x9F, CHR 0x93, CHR 0xAD]"

definition label_sign :: string where
  "label_sign = [CHR 0xF0, CHR 0x9F, CHR 0x8F, CHR 0xB7, CHR 0xEF, CHR 0xB8, CHR 0x8F]"

definition robot :: string where
  "robot = [CHR 0xF0, CHR 0x9F, CHR 0xA4, CHR 0x96]"

definition sparkles :: string where
  "sparkles = [CHR 0xE2, CHR 0x9C, CHR 0xA8]"

definition memo :: string where
  "memo = [CHR 0xF0, CHR 0x9F, CHR 0x93, CHR 0x9D]"

definition calendar :: string where
  "calendar = [CHR 0xF0, CHR 0x9F, CHR 0x93, CHR 0x85]"

definition hourglass :: string where
  "hourglass = [CHR 0xE2, CHR 0x8F, CHR 0xB3]"

definition busts :: string where
  "busts = [CHR 0xF0, CHR 0x9F, CHR 0x91, CHR 0xA5]"

definition money_bag :: string where
  "money_bag = [CHR 0xF0, CHR 0x9F, CHR 0x92, CHR 0xB0]"

definition heart :: string where
  "heart = [CHR 0xE2, CHR 0x9D, CHR 0xA4, CHR 0xEF, CHR 0xB8, CHR 0x8F]"

definition link_sign :: string where
  "link_sign = [CHR 0xF0, CHR 0x9F, CHR 0x94, CHR 0x97]"

definition bullet :: string where
  "bullet = [CHR 0xE2, CHR 0x80, CHR 0xA2]"

definition rupee :: string where
  "rupee = [CHR 0xE2, CHR 0x82, CHR 0xB9]"

subsection \<open>formatEventMessage\<close>

text \<open>
  The date library is outside the repository: \<open>fmt d f\<close> stands for
  \<^verbatim>\<open>moment(d).format(f)\<close> and is a parameter, as is \<open>num\<close>, the text of a number. A
  link that is absent or empty is falsy and leaves its line empty.
\<close>

definition price_text :: "(rat \<Rightarrow> string) \<Rightarrow> event \<Rightarrow> string" where
  "price_text num e = (if isEventFree e then ''Free'' else rupee @ num (event_price e))"

definition register_text :: "event \<Rightarrow> string" where
  "register_text e =
     (case redirection_link e of
        None \<Rightarrow> []
      | Some l \<Rightarrow> if l = [] then [] else bullet @ '' Register: '' @ l)"

definition formatEventMessage ::
  "(timestamp \<Rightarrow> string \<Rightarrow> string) \<Rightarrow> (rat \<Rightarrow> string) \<Rightarrow> event \<Rightarrow> string" where
  "formatEventMessage fmt num e =
     ''\<newline><b>'' @ event_title e @ ''</b>\<newline>\<newline>'' @
     memo @ '' <b>Description:</b> '' @ event_description e @ ''\<newline>'' @
     pushpin @ '' <b>Location:</b> '' @ event_location e @ ''\<newline>'' @
     calendar @ '' <b>Start Date:</b> '' @
       fmt (event_startdate e) ''MMMM Do YYYY, h:mm a'' @ ''\<newline>'' @
     hourglass @ '' <b>Duration:</b> '' @ num (event_duration e) @ '' hours\<newline>'' @
     busts @ '' <b>Team Size:</b> '' @ num (team_size e) @ ''\<newline>'' @
     money_bag @ '' <b>Price:</b> '' @ price_text num e @ ''\<newline>\<newline>'' @
     ''<b>Registration:</b>\<newline>'' @
     bullet @ '' Start: '' @
       fmt (event_registration_startdate e) ''MMMM Do YYYY'' @ ''\<newline>'' @
     bullet @ '' End: '' @
       fmt (event_registration_enddate e) ''MMMM Do YYYY'' @ ''\<newline>'' @
     register_text e @ ''\<newline>\<newline>'' @
     ''<b>Organizer Details:</b>\<newline>'' @
     bullet @ '' Name: '' @ organizer_name e @ ''\<newline>'' @
     bullet @ '' Email: '' @ organizer_email e @ ''\<newline>'' @
     bullet @ '' Contact: '' @ organizer_contact e @ ''\<newline>\<newline>'' @
     label_sign @ '' <b>Category:</b> '' @ event_category e @ ''\<newline>'' @
     heart @ '' <b>Likes:</b> '' @ num (of_int (event_likes e)) @ ''\<newline>\<newline>'' @
     link_sign @ '' <b>Event Link:</b> https://www.nexmeet.social/explore-events/'' @
       id_field e @ ''\<newline>''"

section \<open>The data store\<close>

text \<open>
  The program builds a query by chaining calls on the client of the store and awaits the
  answer. A query is the record of that chain, and the functions \<open>select\<close>, \<open>gt\<close>,
  \<open>lt\<close>, \<open>eq_is_approved\<close>, \<open>ilike\<close>, \<open>textSearch\<close>, \<open>order\<close> and \<open>limit\<close> are the
  calls of the chain.
\<close>

datatype int_column = event_enddate_col | created_at_col | event_likes_col

datatype text_column = event_location_col | event_category_col | event_description_col

datatype condition =
    Gt int_column timestamp
  | Lt int_column timestamp
  | Eq_is_approved bool
  | Ilike text_column string
  | TextSearch text_column string

record query =
  select_columns :: string
  filters :: "condition list"
  order_by :: "(int_column \<times> bool) option"
  limit_rows :: "nat option"

definition select :: "string \<Rightarrow> query" where
  "select cols = \<lparr>select_columns = cols, filters = [], order_by = None, limit_rows = None\<rparr>"

definition gt :: "int_column \<Rightarrow> timestamp \<Rightarrow> query \<Rightarrow> query" where
  "gt c v q = q\<lparr>filters := filters q @ [Gt c v]\<rparr>"

definition lt :: "int_column \<Rightarrow> timestamp \<Rightarrow> query \<Rightarrow> query" where
  "lt c v q = q\<lparr>filters := filters q @ [Lt c v]\<rparr>"

definition eq_is_approved :: "bool \<Rightarrow> query \<Rightarrow> query" where
  "eq_is_approved b q = q\<lparr>filters := filters q @ [Eq_is_approved b]\<rparr>"

definition ilike :: "text_column \<Rightarrow> string \<Rightarrow> query \<Rightarrow> query" where
  "ilike c p q = q\<lparr>filters := filters q @ [Ilike c p]\<rparr>"

definition textSearch :: "text_column \<Rightarrow> string \<Rightarrow> query \<Rightarrow> query" where
  "textSearch c t q = q\<lparr>filters := filters q @ [TextSearch c t]\<rparr>"

definition order :: "int_column \<Rightarrow> bool \<Rightarrow> query \<Rightarrow> query" where
  "order c ascending q = q\<lparr>order_by := Some (c, ascending)\<rparr>"

definition limit :: "nat \<Rightarrow> query \<Rightarrow> query" where
  "limit n q = q\<lparr>limit_rows := Some n\<rparr>"

fun int_value :: "int_column \<Rightarrow> event \<Rightarrow> int" where
  "int_value event_enddate_col e = event_enddate e"
| "int_value created_at_col e = created_at e"
| "int_value event_likes_col e = event_likes e"

fun text_value :: "text_column \<Rightarrow> event \<Rightarrow> string" where
  "text_value event_location_col e = event_location e"
| "text_value event_category_col e = event_category e"
| "text_value event_description_col e = event_description e"

text \<open>
  Modelled from the spec: the store is a remote service, and none of its code is in the
  repository. Its reading of a query follows section 4.2 of the specification: the
  filters are a conjunction, \<^verbatim>\<open>order\<close> sorts on a column, \<^verbatim>\<open>limit\<close> keeps a prefix of the
  sorted rows, and a query without \<^verbatim>\<open>limit\<close> is answered in full. The order of rows
  with equal keys is the store's choice; here they keep the order of the table. How the
  store matches a pattern (\<open>il\<close>) and how it searches a text (\<open>ts\<close>) are the store's own
  and stay parameters.
\<close>

fun holds ::
  "(string \<Rightarrow> string \<Rightarrow> bool) \<Rightarrow> (string \<Rightarrow> string \<Rightarrow> bool) \<Rightarrow> event \<Rightarrow> condition \<Rightarrow> bool"
  where
  "holds il ts e (Gt c v) = (int_value c e > v)"
| "holds il ts e (Lt c v) = (int_value c e < v)"
| "holds il ts e (Eq_is_approved b) = (is_approved e = b)"
| "holds il ts e (Ilike c p) = il p (text_value c e)"
| "holds il ts e (TextSearch c t) = ts t (text_value c e)"

definition run_query ::
  "(string \<Rightarrow> string \<Rightarrow> bool) \<Rightarrow> (string \<Rightarrow> string \<Rightarrow> bool) \<Rightarrow> query \<Rightarrow> event list \<Rightarrow>
   event list" where
  "run_query il ts q rows =
     (let matching = filter (\<lambda>e. list_all (holds il ts e) (filters q)) rows;
          ordered =
            (case order_by q of
               None \<Rightarrow> matching
             | Some (c, ascending) \<Rightarrow>
                 if ascending then sort_key (int_value c) matching
                 else sort_key (\<lambda>e. - int_value c e) matching)
      in case limit_rows q of None \<Rightarrow> ordered | Some n \<Rightarrow> take n ordered)"

subsection \<open>The pattern language of SQL\<close>

text \<open>
  An assumption about the store, in neither the specification nor the repository: the
  documented reading of an \<^verbatim>\<open>ilike\<close> pattern by the gateway and the database behind
  it. The gateway takes a star for a percent sign; the database takes a percent sign for
  any run of characters, an underscore for any one character and a backslash before a
  character for that character, and compares letters without case. The reading is
  written for ASCII texts, where a character is one byte and the letters are those of
  the English alphabet; a claim uses it only under the hypothesis that the store agrees
  with it on ASCII texts.
\<close>

definition ascii :: "string \<Rightarrow> bool" where
  "ascii s = list_all (\<lambda>c. (of_char c :: nat) < 128) s"

definition lower_ascii :: "char \<Rightarrow> char" where
  "lower_ascii c =
     (case map_of (zip ''ABCDEFGHIJKLMNOPQRSTUVWXYZ'' ''abcdefghijklmnopqrstuvwxyz'') c of
        None \<Rightarrow> c
      | Some l \<Rightarrow> l)"

definition star_to_percent :: "char \<Rightarrow> char" where
  "star_to_percent c = (if c = CHR ''*'' then CHR ''%'' else c)"

fun like_match :: "string \<Rightarrow> string \<Rightarrow> bool" where
  "like_match [] t = (t = [])"
| "like_match (p # ps) t =
     (if p = CHR ''%'' then
        like_match ps t \<or> (case t of [] \<Rightarrow> False | c # cs \<Rightarrow> like_match (p # ps) cs)
      else if p = CHR ''_'' then
        (case t of [] \<Rightarrow> False | c # cs \<Rightarrow> like_match ps cs)
      else if p = CHR 0x5C then
        (case ps of
           [] \<Rightarrow> False
         | q # qs \<Rightarrow> (case t of [] \<Rightarrow> False | c # cs \<Rightarrow> q = c \<and> like_match qs cs))
      else
        (case t of [] \<Rightarrow> False | c # cs \<Rightarrow> p = c \<and> like_match ps cs))"

definition wildcard_free :: "string \<Rightarrow> bool" where
  "wildcard_free s =
     (CHR ''%'' \<notin> set s \<and> CHR ''_'' \<notin> set s \<and> CHR 0x5C \<notin> set s \<and> CHR ''*'' \<notin> set s)"

definition ilike_match :: "string \<Rightarrow> string \<Rightarrow> bool" where
  "ilike_match p t =
     like_match (map lower_ascii (map star_to_percent p)) (map lower_ascii t)"

definition sql_ilike :: "(string \<Rightarrow> string \<Rightarrow> bool) \<Rightarrow> bool" where
  "sql_ilike il = (\<forall>p t. ascii p \<and> ascii t \<longrightarrow> il p t = ilike_match p t)"

section \<open>The world outside and the state of the bot\<close>

text \<open>
  What the program cannot decide is a field of \<open>world\<close>: whether the chat platform
  accepts a call (\<open>telegram n\<close> for the call made when \<open>n\<close> effects have happened),
  the rows of the table, whether the store reports an error for a query, the store's
  pattern match and full-text match, the answer of the AI service (\<open>None\<close> when the
  call fails), the clock, the date library, the text JavaScript prints for a number, and
  two environment variables.
\<close>

record world =
  telegram :: "nat \<Rightarrow> bool"
  event_details :: "event list"
  store_error :: "query \<Rightarrow> string option"
  ilike_op :: "string \<Rightarrow> string \<Rightarrow> bool"
  fts :: "string \<Rightarrow> string \<Rightarrow> bool"
  mistral :: "string \<Rightarrow> string option"
  clock :: timestamp
  moment_format :: "timestamp \<Rightarrow> string \<Rightarrow> string"
  number_text :: "rat \<Rightarrow> string"
  NODE_ENV :: "string option"
  MISTRAL_MODEL_NAME :: "string option"

datatype session_state = AWAITING_LOCATION | AWAITING_CATEGORY

record session =
  state :: session_state

datatype parse_mode = HTML | Markdown

text \<open>
  Everything a handler does is recorded, in the order it happens: the calls to the chat
  platform, the store and the AI service, the lines logged, and the writes to the session
  map.
\<close>

datatype effect =
    SendMessage chat_id string "parse_mode option"
  | AnswerCallbackQuery string
  | ConsoleError string
  | StoreSelect query
  | MistralChat "string option" string
  | SessionSet chat_id session
  | SessionDelete chat_id

record bot_state =
  userSessions :: "chat_id \<rightharpoonup> session"
  effects :: "effect list"

datatype exn = StoreError string | TelegramError | MistralError

type_synonym 'a io = "bot_state \<Rightarrow> (exn + 'a) \<times> bot_state"

definition io_return :: "'a \<Rightarrow> 'a io" where
  "io_return x = (\<lambda>s. (Inr x, s))"

definition io_throw :: "exn \<Rightarrow> 'a io" where
  "io_throw x = (\<lambda>s. (Inl x, s))"

definition io_bind :: "'a io \<Rightarrow> ('a \<Rightarrow> 'b io) \<Rightarrow> 'b io" where
  "io_bind m k = (\<lambda>s. case m s of (Inl x, s') \<Rightarrow> (Inl x, s') | (Inr a, s') \<Rightarrow> k a s')"

definition io_try :: "'a io \<Rightarrow> (exn \<Rightarrow> 'a io) \<Rightarrow> 'a io" where
  "io_try m h = (\<lambda>s. case m s of (Inl x, s') \<Rightarrow> h x s' | (Inr a, s') \<Rightarrow> (Inr a, s'))"

definition emit :: "effect \<Rightarrow> bot_state \<Rightarrow> bot_state" where
  "emit x s = s\<lparr>effects := effects s @ [x]\<rparr>"

definition sendMessage :: "world \<Rightarrow> chat_id \<Rightarrow> string \<Rightarrow> parse_mode option \<Rightarrow> unit io" where
  "sendMessage w c t pm =
     (\<lambda>s. (if telegram w (length (effects s)) then Inr () else Inl TelegramError,
           emit (SendMessage c t pm) s))"

definition answerCallbackQuery :: "world \<Rightarrow> string \<Rightarrow> unit io" where
  "answerCallbackQuery w i =
     (\<lambda>s. (if telegram w (length (effects s)) then Inr () else Inl TelegramError,
           emit (AnswerCallbackQuery i) s))"

definition console_error :: "string \<Rightarrow> unit io" where
  "console_error t = (\<lambda>s. (Inr (), emit (ConsoleError t) s))"

definition store_answer :: "world \<Rightarrow> query \<Rightarrow> string + event list" where
  "store_answer w q =
     (case store_error w q of
        Some m \<Rightarrow> Inl m
      | None \<Rightarrow> Inr (run_query (ilike_op w) (fts w) q (event_details w)))"

definition await_query :: "world \<Rightarrow> query \<Rightarrow> (string + event list) io" where
  "await_query w q = (\<lambda>s. (Inr (store_answer w q), emit (StoreSelect q) s))"

definition mistral_chat :: "world \<Rightarrow> string \<Rightarrow> string io" where
  "mistral_chat w content =
     (\<lambda>s. (case mistral w content of None \<Rightarrow> Inl MistralError | Some a \<Rightarrow> Inr a,
           emit (MistralChat (MISTRAL_MODEL_NAME w) content) s))"

definition sessions_set :: "chat_id \<Rightarrow> session \<Rightarrow> unit io" where
  "sessions_set c v =
     (\<lambda>s. (Inr (), emit (SessionSet c v) (s\<lparr>userSessions := (userSessions s)(c \<mapsto> v)\<rparr>)))"

definition sessions_delete :: "chat_id \<Rightarrow> unit io" where
  "sessions_delete c =
     (\<lambda>s. (Inr (), emit (SessionDelete c) (s\<lparr>userSessions := (userSessions s)(c := None)\<rparr>)))"

section \<open>The chat front end\<close>

text \<open>The loop \<^verbatim>\<open>for (const event of events)\<close> that sends one message per event.\<close>

fun send_events :: "world \<Rightarrow> chat_id \<Rightarrow> event list \<Rightarrow> unit io" where
  "send_events w c [] s = io_return () s"
| "send_events w c (e # es) s =
     io_bind
       (sendMessage w c (formatEventMessage (moment_format w) (number_text w) e) (Some HTML))
       (\<lambda>_. send_events w c es) s"

definition active_query :: "timestamp \<Rightarrow> query" where
  "active_query currentDate =
     order created_at_col False
       (eq_is_approved True (gt event_enddate_col currentDate (select ''*'')))"

definition past_query :: "timestamp \<Rightarrow> query" where
  "past_query currentDate =
     limit 5 (order event_enddate_col False
       (eq_is_approved True (lt event_enddate_col currentDate (select ''*''))))"

definition popular_query :: query where
  "popular_query = limit 5 (order event_likes_col False (eq_is_approved True (select ''*'')))"

definition location_query :: "string \<Rightarrow> query" where
  "location_query text =
     eq_is_approved True (ilike event_location_col (''%'' @ text @ ''%'') (select ''*''))"

definition category_query :: "string \<Rightarrow> query" where
  "category_query text =
     eq_is_approved True (ilike event_category_col (''%'' @ text @ ''%'') (select ''*''))"

definition ask_query :: "string \<Rightarrow> query" where
  "ask_query query =
     limit 5 (textSearch event_description_col query (eq_is_approved True (select ''*'')))"

definition fetch_error_text :: string where
  "fetch_error_text = ''Sorry, there was an error fetching the events. Please try again later.''"

definition handleActiveHackathons :: "world \<Rightarrow> chat_id \<Rightarrow> unit io" where
  "handleActiveHackathons w chatId =
     io_try
       (io_bind (await_query w (active_query (clock w))) (\<lambda>r.
          case r of
            Inl error \<Rightarrow> io_throw (StoreError error)
          | Inr events \<Rightarrow>
              if length events = 0 then
                sendMessage w chatId ''No active hackathons found at the moment.'' None
              else send_events w chatId events))
       (\<lambda>error.
          io_bind (console_error ''Error fetching active hackathons:'') (\<lambda>_.
          sendMessage w chatId fetch_error_text None))"

definition handlePastEvents :: "world \<Rightarrow> chat_id \<Rightarrow> unit io" where
  "handlePastEvents w chatId =
     io_try
       (io_bind (await_query w (past_query (clock w))) (\<lambda>r.
          case r of
            Inl error \<Rightarrow> io_throw (StoreError error)
          | Inr events \<Rightarrow>
              if length events = 0 then sendMessage w chatId ''No past events found.'' None
              else send_events w chatId events))
       (\<lambda>error.
          io_bind (console_error ''Error fetching past events:'') (\<lambda>_.
          sendMessage w chatId fetch_error_text None))"

definition handlePopularEvents :: "world \<Rightarrow> chat_id \<Rightarrow> unit io" where
  "handlePopularEvents w chatId =
     io_try
       (io_bind (await_query w popular_query) (\<lambda>r.
          case r of
            Inl error \<Rightarrow> io_throw (StoreError error)
          | Inr events \<Rightarrow>
              if length events = 0 then sendMessage w chatId ''No events found.'' None
              else send_events w chatId events))
       (\<lambda>error.
          io_bind (console_error ''Error fetching popular events:'') (\<lambda>_.
          sendMessage w chatId fetch_error_text None))"

record callback_query =
  cq_id :: string
  cq_chat_id :: chat_id
  cq_data :: string

definition on_callback_query :: "world \<Rightarrow> callback_query \<Rightarrow> unit io" where
  "on_callback_query w callbackQuery =
     (let chatId = cq_chat_id callbackQuery; action = cq_data callbackQuery in
      io_try
        (io_bind (answerCallbackQuery w (cq_id callbackQuery)) (\<lambda>_.
           if action = ''active_hackathons'' then
             io_bind (sendMessage w chatId (magnifier @ '' Searching for active hackathons...'') None)
               (\<lambda>_. handleActiveHackathons w chatId)
           else if action = ''past_events'' then
             io_bind (sendMessage w chatId (magnifier @ '' Fetching past events...'') None)
               (\<lambda>_. handlePastEvents w chatId)
           else if action = ''search_location'' then
             io_bind (sessions_set chatId \<lparr>state = AWAITING_LOCATION\<rparr>) (\<lambda>_.
               sendMessage w chatId
                 (pushpin @ '' Please enter the location you want to search for:'') None)
           else if action = ''search_category'' then
             io_bind (sessions_set chatId \<lparr>state = AWAITING_CATEGORY\<rparr>) (\<lambda>_.
               sendMessage w chatId
                 (label_sign @ '' Please enter the category you want to search for:'') None)
           else if action = ''popular_events'' then
             io_bind (sendMessage w chatId (magnifier @ '' Finding the most popular events...'') None)
               (\<lambda>_. handlePopularEvents w chatId)
           else io_return ()))
        (\<lambda>error.
           io_bind (console_error ''Error handling callback query:'') (\<lambda>_.
           sendMessage w chatId
             ''Sorry, there was an error processing your selection. Please try again.'' None)))"

record message =
  msg_chat_id :: chat_id
  msg_text :: string

text \<open>
  The handler of text messages, in three parts: the block under \<^verbatim>\<open>try\<close>, the
  block under \<^verbatim>\<open>catch\<close>, and the handler that reads the session and runs them.
\<close>

definition text_search :: "world \<Rightarrow> chat_id \<Rightarrow> string \<Rightarrow> session \<Rightarrow> unit io" where
  "text_search w chatId text session =
     (if state session = AWAITING_LOCATION then
        io_bind (sendMessage w chatId
                   (magnifier @ '' Searching for events in '' @ text @ ''...'') None) (\<lambda>_.
        io_bind (await_query w (location_query text)) (\<lambda>r.
          case r of
            Inl error \<Rightarrow> io_throw (StoreError error)
          | Inr events \<Rightarrow>
              io_bind
                (if length events = 0 then
                   sendMessage w chatId (mailbox @ '' No events found in '' @ text) None
                 else
                   io_bind (sendMessage w chatId
                              (pushpin @ '' Found '' @ show_nat (length events) @
                               '' events in '' @ text @ '':'') None)
                     (\<lambda>_. send_events w chatId events))
                (\<lambda>_. sessions_delete chatId)))
      else if state session = AWAITING_CATEGORY then
        io_bind (sendMessage w chatId
                   (magnifier @ '' Searching for events in category '' @ text @ ''...'')
                   None) (\<lambda>_.
        io_bind (await_query w (category_query text)) (\<lambda>r.
          case r of
            Inl error \<Rightarrow> io_throw (StoreError error)
          | Inr events \<Rightarrow>
              io_bind
                (if length events = 0 then
                   sendMessage w chatId
                     (mailbox @ '' No events found in category '' @ text) None
                 else
                   io_bind (sendMessage w chatId
                              (label_sign @ '' Found '' @ show_nat (length events) @
                               '' events in category '' @ text @ '':'') None)
                     (\<lambda>_. send_events w chatId events))
                (\<lambda>_. sessions_delete chatId)))
      else io_return ())"

definition text_error_text :: string where
  "text_error_text =
     ''Sorry, there was an error processing your request. Please try again later.''"

definition text_failure :: "world \<Rightarrow> chat_id \<Rightarrow> unit io" where
  "text_failure w chatId =
     io_bind (console_error ''Error processing text message:'') (\<lambda>_.
     io_bind (sendMessage w chatId text_error_text None) (\<lambda>_.
     sessions_delete chatId))"

definition on_text :: "world \<Rightarrow> message \<Rightarrow> unit io" where
  "on_text w msg =
     (\<lambda>s.
       let chatId = msg_chat_id msg; text = msg_text msg in
       case userSessions s chatId of
         None \<Rightarrow> (Inr (), s)
       | Some session \<Rightarrow>
           io_try (text_search w chatId text session) (\<lambda>error. text_failure w chatId) s)"

text \<open>
  The handler of \<^verbatim>\<open>/ask (.+)\<close>: \<open>query\<close> is the text captured by the group. The answer
  of the AI service is bound to \<open>aiResponse\<close> and not used again. The bot library runs
  the regular expression on the text of a message and calls the handler with the
  leftmost match: \<open>ask_exec\<close> gives the text of the group, the longest run after the
  first \<^verbatim>\<open>/ask \<close> that is not empty and holds no line terminator (line feed, carriage
  return, line separator, paragraph separator).
\<close>

definition line_end :: "string \<Rightarrow> bool" where
  "line_end t =
     (prefix [CHR 0x0A] t \<or> prefix [CHR 0x0D] t \<or>
      prefix [CHR 0xE2, CHR 0x80, CHR 0xA8] t \<or> prefix [CHR 0xE2, CHR 0x80, CHR 0xA9] t)"

fun first_line :: "string \<Rightarrow> string" where
  "first_line [] = []"
| "first_line (c # cs) = (if line_end (c # cs) then [] else c # first_line cs)"

fun ask_exec :: "string \<Rightarrow> string option" where
  "ask_exec [] = None"
| "ask_exec (c # cs) =
     (if prefix ''/ask '' (c # cs) \<and> first_line (drop 5 (c # cs)) \<noteq> []
      then Some (first_line (drop 5 (c # cs)))
      else ask_exec cs)"

definition ask_prompt :: "string \<Rightarrow> string" where
  "ask_prompt query =
     ''Given this event query: '' @ [CHR 0x22] @ query @ [CHR 0x22] @
     '', help me understand what kind of events the user is looking for. '' @
     ''Consider factors like timing, category, and location.''"

definition on_ask :: "world \<Rightarrow> chat_id \<Rightarrow> string \<Rightarrow> unit io" where
  "on_ask w chatId query =
     io_try
       (io_bind (sendMessage w chatId (robot @ '' Processing your request with AI...'') None) (\<lambda>_.
        io_bind (mistral_chat w (ask_prompt query)) (\<lambda>aiResponse.
        io_bind (sendMessage w chatId (magnifier @ '' Searching for matching events...'') None) (\<lambda>_.
        io_bind (await_query w (ask_query query)) (\<lambda>r.
          case r of
            Inl error \<Rightarrow> io_throw (StoreError error)
          | Inr events \<Rightarrow>
              if length events = 0 then
                sendMessage w chatId
                  (mailbox @ '' I couldn't find any events matching your criteria.'') None
              else
                io_bind (sendMessage w chatId
                           (sparkles @ '' Found '' @ show_nat (length events) @
                            '' events that might interest you:'') None)
                  (\<lambda>_. send_events w chatId events))))))
       (\<lambda>error.
          io_bind (console_error ''Error processing AI query:'') (\<lambda>_.
          sendMessage w chatId
            ''Sorry, I couldn't process your request right now. Please try again later.'' None))"

definition onText_ask :: "world \<Rightarrow> message \<Rightarrow> unit io" where
  "onText_ask w msg =
     (case ask_exec (msg_text msg) of
        None \<Rightarrow> io_return ()
      | Some query \<Rightarrow> on_ask w (msg_chat_id msg) query)"

section \<open>The HTTP front end\<close>

datatype response = Json200 "event list" | Json500 string

definition respond :: "string + event list \<Rightarrow> response" where
  "respond r = (case r of Inl error \<Rightarrow> Json500 error | Inr data \<Rightarrow> Json200 data)"

definition get_active :: "world \<Rightarrow> response" where
  "get_active w =
     respond (store_answer w
       (order created_at_col False
          (eq_is_approved True (gt event_enddate_col (clock w) (select ''*'')))))"

definition get_past :: "world \<Rightarrow> response" where
  "get_past w =
     respond (store_answer w
       (limit 5 (order event_enddate_col False
          (eq_is_approved True (lt event_enddate_col (clock w) (select ''*''))))))"

definition get_location :: "world \<Rightarrow> string \<Rightarrow> response" where
  "get_location w location =
     respond (store_answer w
       (eq_is_approved True
          (ilike event_location_col (''%'' @ location @ ''%'') (select ''*''))))"

definition get_category :: "world \<Rightarrow> string \<Rightarrow> response" where
  "get_category w category =
     respond (store_answer w
       (eq_is_approved True
          (ilike event_category_col (''%'' @ category @ ''%'') (select ''*''))))"

definition get_popular :: "world \<Rightarrow> response" where
  "get_popular w =
     respond (store_answer w
       (limit 5 (order event_likes_col False (eq_is_approved True (select ''*'')))))"

subsection \<open>The status route\<close>

record server_info =
  server_status :: string
  server_timestamp :: timestamp
  environment :: string

datatype database_info = Connected timestamp | Failed string

record status_response =
  http_status :: nat
  status :: string
  server :: server_info
  database :: database_info

definition status_query :: query where
  "status_query = limit 1 (select ''created_at'')"

definition node_env :: "world \<Rightarrow> string" where
  "node_env w =
     (case NODE_ENV w of
        None \<Rightarrow> ''development''
      | Some v \<Rightarrow> if v = [] then ''development'' else v)"

text \<open>
  A creation time is sent by the store as a non-empty text, which is truthy, so the
  second operand of \<^verbatim>\<open>||\<close> is taken exactly when the answer has no first row.
\<close>

definition get_status :: "world \<Rightarrow> status_response" where
  "get_status w =
     (case store_answer w status_query of
        Inr data \<Rightarrow>
          \<lparr>http_status = 200, status = ''ok'',
           server = \<lparr>server_status = ''running'', server_timestamp = clock w,
                     environment = node_env w\<rparr>,
           database = Connected (case data of [] \<Rightarrow> clock w | row # _ \<Rightarrow> created_at row)\<rparr>
      | Inl error \<Rightarrow>
          \<lparr>http_status = 500, status = ''error'',
           server = \<lparr>server_status = ''running'', server_timestamp = clock w,
                     environment = node_env w\<rparr>,
           database = Failed error\<rparr>)"

section \<open>Observing a run\<close>

text \<open>
  \<open>wp m s Q\<close> says that running \<open>m\<close> from \<open>s\<close> ends with a result and a state that
  satisfy \<open>Q\<close>. The other functions read the record of effects: the messages that render
  an event (they are the only ones sent with the HTML parse mode), the queries sent to
  the store, the prompts sent to the AI service, and whether one effect happens before
  the first occurrence of another.
\<close>

definition wp :: "'a io \<Rightarrow> bot_state \<Rightarrow> ((exn + 'a) \<Rightarrow> bot_state \<Rightarrow> bool) \<Rightarrow> bool" where
  "wp m s Q = (case m s of (r, s') \<Rightarrow> Q r s')"

fun html_text :: "effect \<Rightarrow> string list" where
  "html_text (SendMessage c t (Some HTML)) = [t]"
| "html_text x = []"

definition rendered :: "effect list \<Rightarrow> string list" where
  "rendered xs = concat (map html_text xs)"

fun select_of :: "effect \<Rightarrow> query list" where
  "select_of (StoreSelect q) = [q]"
| "select_of x = []"

definition searches :: "effect list \<Rightarrow> query list" where
  "searches xs = concat (map select_of xs)"

fun prompt_of :: "effect \<Rightarrow> string list" where
  "prompt_of (MistralChat m p) = [p]"
| "prompt_of x = []"

definition ai_calls :: "effect list \<Rightarrow> string list" where
  "ai_calls xs = concat (map prompt_of xs)"

definition occurs_before :: "effect \<Rightarrow> effect \<Rightarrow> effect list \<Rightarrow> bool" where
  "occurs_before a b xs = (b \<in> set xs \<and> a \<in> set (takeWhile (\<lambda>x. x \<noteq> b) xs))"

text \<open>
  \<open>effects_of m s\<close> are the effects of running \<open>m\<close> from \<open>s\<close>, and \<open>store_rows w q\<close> the
  rows the store answers a query with, none when it reports an error.
\<close>

definition effects_of :: "'a io \<Rightarrow> bot_state \<Rightarrow> effect list" where
  "effects_of m s = drop (length (effects s)) (effects (snd (m s)))"

definition store_rows :: "world \<Rightarrow> query \<Rightarrow> event list" where
  "store_rows w q = (case store_answer w q of Inl error \<Rightarrow> [] | Inr data \<Rightarrow> data)"

text \<open>
  The loop over the events stops at the first message the platform refuses:
  \<open>attempts w n es\<close> is the number of messages it tries to send when it starts after
  \<open>n\<close> effects, and \<open>accepted w n es\<close> says that none is refused.
\<close>

fun attempts :: "world \<Rightarrow> nat \<Rightarrow> 'a list \<Rightarrow> nat" where
  "attempts w n [] = 0"
| "attempts w n (e # es) = (if telegram w n then Suc (attempts w (Suc n) es) else 1)"

fun accepted :: "world \<Rightarrow> nat \<Rightarrow> 'a list \<Rightarrow> bool" where
  "accepted w n [] = True"
| "accepted w n (e # es) = (telegram w n \<and> accepted w (Suc n) es)"

section \<open>Example data\<close>

definition plain_format :: "timestamp \<Rightarrow> string \<Rightarrow> string" where
  "plain_format d f = show_nat (nat d)"

definition plain_number :: "rat \<Rightarrow> string" where
  "plain_number x = show_nat (nat \<lfloor>x\<rfloor>)"

definition example_event :: event where
  "example_event =
     \<lparr>id_field = ''e1'', event_title = ''Hack Night'', event_description = ''Build things'',
      event_location = ''Pune'', event_startdate = 200, event_enddate = 300,
      event_duration = 24, team_size = 4, isEventFree = True, event_price = 0,
      event_registration_startdate = 100, event_registration_enddate = 150,
      redirection_link = None, organizer_name = ''Asha'', organizer_email = ''a@x.org'',
      organizer_contact = ''12345'', event_category = ''Tech'', event_likes = 7,
      is_approved = True, created_at = 50\<rparr>"

definition example_world :: world where
  "example_world =
     \<lparr>telegram = (\<lambda>n. True), event_details = [example_event], store_error = (\<lambda>q. None),
      ilike_op = ilike_match, fts = (\<lambda>q d. False),
      mistral = (\<lambda>p. Some ''events in Pune''), clock = 250,
      moment_format = plain_format, number_text = plain_number, NODE_ENV = None,
      MISTRAL_MODEL_NAME = Some ''mistral-tiny''\<rparr>"

definition failing_store_world :: world where
  "failing_store_world = example_world\<lparr>store_error := (\<lambda>q. Some ''connection refused'')\<rparr>"

definition prize_event :: event where
  "prize_event = example_event\<lparr>event_description := ''Win '' @ rupee @ ''500''\<rparr>"

definition paid_event :: event where
  "paid_event = example_event\<lparr>isEventFree := False, event_price := 499\<rparr>"

definition draft_event :: event where
  "draft_event = example_event\<lparr>is_approved := False, created_at := 42\<rparr>"

definition draft_world :: world where
  "draft_world = example_world\<lparr>event_details := [draft_event, example_event]\<rparr>"

definition empty_world :: world where
  "empty_world = example_world\<lparr>event_details := []\<rparr>"

definition crowded_world :: world where
  "crowded_world =
     example_world\<lparr>event_details :=
       [example_event, example_event, example_event, example_event, example_event,
        example_event]\<rparr>"

definition late_world :: world where
  "late_world = crowded_world\<lparr>clock := 400\<rparr>"

definition refusing_report_world :: world where
  "refusing_report_world = failing_store_world\<lparr>telegram := (\<lambda>n. n \<noteq> 6)\<rparr>"

definition refusing_ack_world :: world where
  "refusing_ack_world = example_world\<lparr>telegram := (\<lambda>n. n \<noteq> 3)\<rparr>"

definition silent_ai_world :: world where
  "silent_ai_world = example_world\<lparr>mistral := (\<lambda>p. None)\<rparr>"

definition initial_state :: bot_state where
  "initial_state = \<lparr>userSessions = Map.empty, effects = []\<rparr>"

definition location_button :: callback_query where
  "location_button = \<lparr>cq_id = ''q1'', cq_chat_id = 7, cq_data = ''search_location''\<rparr>"

definition category_button :: callback_query where
  "category_button = \<lparr>cq_id = ''q2'', cq_chat_id = 7, cq_data = ''search_category''\<rparr>"

definition pune_message :: message where
  "pune_message = \<lparr>msg_chat_id = 7, msg_text = ''Pune''\<rparr>"

definition ask_message :: message where
  "ask_message = \<lparr>msg_chat_id = 7, msg_text = ''/ask conference in Berlin next month''\<rparr>"

definition two_line_message :: message where
  "two_line_message = \<lparr>msg_chat_id = 7, msg_text = ''/ask hack\<newline>week''\<rparr>"

definition awaiting_location_state :: bot_state where
  "awaiting_location_state =
     \<lparr>userSessions = [7 \<mapsto> \<lparr>state = AWAITING_LOCATION\<rparr>], effects = []\<rparr>"

section \<open>Rules for runs\<close>

lemma wp_result: "wp m s Q = Q (fst (m s)) (snd (m s))"
  by (simp add: wp_def split: prod.splits)

lemma wp_mono: "wp m s P \<Longrightarrow> (\<And>r s'. P r s' \<Longrightarrow> Q r s') \<Longrightarrow> wp m s Q"
  by (simp add: wp_def split: prod.splits)

lemma wp_return: "wp (io_return x) s Q = Q (Inr x) s"
  by (simp add: wp_def io_return_def)

lemma wp_throw: "wp (io_throw x) s Q = Q (Inl x) s"
  by (simp add: wp_def io_throw_def)

lemma wp_bind:
  "wp (io_bind m k) s Q =
     wp m s (\<lambda>r s'. case r of Inl x \<Rightarrow> Q (Inl x) s' | Inr a \<Rightarrow> wp (k a) s' Q)"
  by (simp add: wp_def io_bind_def split: prod.splits sum.splits)

lemma wp_try:
  "wp (io_try m h) s Q =
     wp m s (\<lambda>r s'. case r of Inl x \<Rightarrow> wp (h x) s' Q | Inr a \<Rightarrow> Q (Inr a) s')"
  by (simp add: wp_def io_try_def split: prod.splits sum.splits)

lemma wp_if: "wp (if b then m else n) s Q = (if b then wp m s Q else wp n s Q)"
  by simp

lemma wp_case_sum:
  "wp (case r of Inl x \<Rightarrow> f x | Inr y \<Rightarrow> g y) s Q =
     (case r of Inl x \<Rightarrow> wp (f x) s Q | Inr y \<Rightarrow> wp (g y) s Q)"
  by (simp split: sum.splits)

lemma wp_sendMessage:
  "wp (sendMessage w c t pm) s Q =
     Q (if telegram w (length (effects s)) then Inr () else Inl TelegramError)
       (emit (SendMessage c t pm) s)"
  by (simp add: wp_def sendMessage_def)

lemma wp_answerCallbackQuery:
  "wp (answerCallbackQuery w i) s Q =
     Q (if telegram w (length (effects s)) then Inr () else Inl TelegramError)
       (emit (AnswerCallbackQuery i) s)"
  by (simp add: wp_def answerCallbackQuery_def)

lemma wp_console_error: "wp (console_error t) s Q = Q (Inr ()) (emit (ConsoleError t) s)"
  by (simp add: wp_def console_error_def)

lemma wp_await_query:
  "wp (await_query w q) s Q = Q (Inr (store_answer w q)) (emit (StoreSelect q) s)"
  by (simp add: wp_def await_query_def)

lemma wp_mistral_chat:
  "wp (mistral_chat w p) s Q =
     Q (case mistral w p of None \<Rightarrow> Inl MistralError | Some a \<Rightarrow> Inr a)
       (emit (MistralChat (MISTRAL_MODEL_NAME w) p) s)"
  by (simp add: wp_def mistral_chat_def)

lemma wp_sessions_set:
  "wp (sessions_set c v) s Q =
     Q (Inr ()) (emit (SessionSet c v) (s\<lparr>userSessions := (userSessions s)(c \<mapsto> v)\<rparr>))"
  by (simp add: wp_def sessions_set_def)

lemma wp_sessions_delete:
  "wp (sessions_delete c) s Q =
     Q (Inr ()) (emit (SessionDelete c) (s\<lparr>userSessions := (userSessions s)(c := None)\<rparr>))"
  by (simp add: wp_def sessions_delete_def)

lemma emit_sessions [simp]: "userSessions (emit x s) = userSessions s"
  by (simp add: emit_def)

lemma emit_effects [simp]: "effects (emit x s) = effects s @ [x]"
  by (simp add: emit_def)

lemma send_events_run:
  "send_events w c es s =
     (if accepted w (length (effects s)) es then Inr () else Inl TelegramError,
      s\<lparr>effects := effects s @
          map (\<lambda>e. SendMessage c
                 (formatEventMessage (moment_format w) (number_text w) e) (Some HTML))
            (take (attempts w (length (effects s)) es) es)\<rparr>)"
proof (induction es arbitrary: s)
  case Nil
  show ?case by (simp add: io_return_def)
next
  case (Cons e es)
  show ?case
    by (simp add: io_bind_def sendMessage_def Cons.IH emit_def)
qed

lemma wp_send_events:
  "wp (send_events w c es) s Q =
     Q (if accepted w (length (effects s)) es then Inr () else Inl TelegramError)
       (s\<lparr>effects := effects s @
          map (\<lambda>e. SendMessage c
                 (formatEventMessage (moment_format w) (number_text w) e) (Some HTML))
            (take (attempts w (length (effects s)) es) es)\<rparr>)"
  by (simp add: wp_def send_events_run)

lemmas wp_rules = wp_return wp_throw wp_bind wp_try wp_if wp_case_sum wp_sendMessage
  wp_answerCallbackQuery wp_console_error wp_await_query wp_mistral_chat wp_sessions_set
  wp_sessions_delete wp_send_events

lemma accepted_all: "\<forall>n. telegram w n \<Longrightarrow> accepted w n es"
  by (induction es arbitrary: n) simp_all

lemma attempts_all: "\<forall>n. telegram w n \<Longrightarrow> attempts w n es = length es"
  by (induction es arbitrary: n) simp_all

section \<open>The session state machine\<close>

lemma wp_on_text_pending:
  "userSessions s (msg_chat_id msg) = Some sess \<Longrightarrow>
   wp (on_text w msg) s Q =
   wp (io_try (text_search w (msg_chat_id msg) (msg_text msg) sess)
         (\<lambda>error. text_failure w (msg_chat_id msg))) s Q"
  by (simp add: wp_def on_text_def Let_def)

lemma text_search_sessions:
  "wp (text_search w c t sess) s (\<lambda>r s'.
      (r = Inr () \<and> userSessions s' = (userSessions s)(c := None)) \<or>
      (r = Inl TelegramError \<or> (\<exists>m. r = Inl (StoreError m))) \<and> userSessions s' = userSessions s)"
proof -
  obtain st where sess: "sess = \<lparr>state = st\<rparr>" by (cases sess) simp
  show ?thesis
    by (cases st) (simp_all add: text_search_def sess wp_rules split: sum.splits)
qed

lemma text_failure_sessions:
  "wp (text_failure w c) s (\<lambda>r s'.
      (r = Inr () \<and> userSessions s' = (userSessions s)(c := None)) \<or>
      (r = Inl TelegramError \<and> userSessions s' = userSessions s))"
  by (simp add: text_failure_def wp_rules)

lemma on_text_sessions:
  assumes "userSessions s (msg_chat_id msg) = Some sess"
  shows "wp (on_text w msg) s (\<lambda>r s'.
      (r = Inr () \<and> userSessions s' = (userSessions s)(msg_chat_id msg := None)) \<or>
      (r = Inl TelegramError \<and> userSessions s' = userSessions s))"
  unfolding wp_on_text_pending [OF assms] wp_try
  apply (rule wp_mono [OF text_search_sessions])
  apply (erule disjE)
   apply simp
  apply (erule conjE)
  apply (erule disjE)
   apply (simp, rule wp_mono [OF text_failure_sessions], simp)
  apply (erule exE)
  apply (simp, rule wp_mono [OF text_failure_sessions], simp)
  done


lemma handleActiveHackathons_sessions:
  "wp (handleActiveHackathons w c) s (\<lambda>r s'. userSessions s' = userSessions s)"
  by (simp add: handleActiveHackathons_def wp_rules split: sum.splits)

lemma handlePastEvents_sessions:
  "wp (handlePastEvents w c) s (\<lambda>r s'. userSessions s' = userSessions s)"
  by (simp add: handlePastEvents_def wp_rules split: sum.splits)

lemma handlePopularEvents_sessions:
  "wp (handlePopularEvents w c) s (\<lambda>r s'. userSessions s' = userSessions s)"
  by (simp add: handlePopularEvents_def wp_rules split: sum.splits)

lemma on_callback_query_sessions:
  "wp (on_callback_query w cq) s (\<lambda>r s'.
     userSessions s' =
       (if telegram w (length (effects s)) \<and> cq_data cq = ''search_location''
        then (userSessions s)(cq_chat_id cq \<mapsto> \<lparr>state = AWAITING_LOCATION\<rparr>)
        else if telegram w (length (effects s)) \<and> cq_data cq = ''search_category''
        then (userSessions s)(cq_chat_id cq \<mapsto> \<lparr>state = AWAITING_CATEGORY\<rparr>)
        else userSessions s))"
  by (auto simp add: on_callback_query_def Let_def wp_rules split: sum.splits
      intro!: wp_mono [OF handleActiveHackathons_sessions]
        wp_mono [OF handlePastEvents_sessions] wp_mono [OF handlePopularEvents_sessions])

lemma on_callback_query_sessions_eq:
  "userSessions (snd (on_callback_query w cq s)) =
       (if telegram w (length (effects s)) \<and> cq_data cq = ''search_location''
        then (userSessions s)(cq_chat_id cq \<mapsto> \<lparr>state = AWAITING_LOCATION\<rparr>)
        else if telegram w (length (effects s)) \<and> cq_data cq = ''search_category''
        then (userSessions s)(cq_chat_id cq \<mapsto> \<lparr>state = AWAITING_CATEGORY\<rparr>)
        else userSessions s)"
  using on_callback_query_sessions [of w cq s] unfolding wp_result .


lemma on_text_sessions_eq:
  assumes "userSessions s (msg_chat_id msg) = Some sess"
  shows "(fst (on_text w msg s) = Inr () \<and>
          userSessions (snd (on_text w msg s)) = (userSessions s)(msg_chat_id msg := None)) \<or>
         (fst (on_text w msg s) = Inl TelegramError \<and>
          userSessions (snd (on_text w msg s)) = userSessions s)"
  using on_text_sessions [OF assms, of w] unfolding wp_result .

lemma text_search_returns:
  "\<forall>n. telegram w n \<Longrightarrow>
   wp (text_search w c t sess) s (\<lambda>r s'. r = Inr () \<or> (\<exists>m. r = Inl (StoreError m)))"
proof -
  assume a: "\<forall>n. telegram w n"
  obtain st where sess: "sess = \<lparr>state = st\<rparr>" by (cases sess) simp
  show ?thesis
    by (cases st) (simp_all add: text_search_def sess wp_rules a accepted_all split: sum.splits)
qed

lemma on_text_returns:
  assumes "\<forall>n. telegram w n"
  shows "fst (on_text w msg s) = Inr ()"
proof (cases "userSessions s (msg_chat_id msg)")
  case None
  then show ?thesis by (simp add: on_text_def)
next
  case (Some sess)
  have "wp (on_text w msg) s (\<lambda>r s'. r = Inr ())"
    unfolding wp_on_text_pending [OF Some] wp_try
    by (rule wp_mono [OF text_search_returns [OF assms]])
      (auto simp add: text_failure_def wp_rules assms)
  then show ?thesis unfolding wp_result .
qed

section \<open>Claims about the session state machine\<close>

text \<open>
  In every run in which the text handler returns, the entry of the chat is gone,
  whatever the store answers; and the handler returns whenever the platform accepts its
  messages.
\<close>

lemma location_search_clears_on_return:
  assumes "cq_data cq = ''search_location''"
    and "telegram w1 (length (effects s0))"
    and "msg_chat_id msg = cq_chat_id cq"
    and "s1 = snd (on_callback_query w1 cq s0)"
  shows "userSessions s1 (cq_chat_id cq) = Some \<lparr>state = AWAITING_LOCATION\<rparr> \<and>
         (fst (on_text w2 msg s1) = Inr () \<longrightarrow>
            userSessions (snd (on_text w2 msg s1)) (cq_chat_id cq) = None) \<and>
         ((\<forall>n. telegram w2 n) \<longrightarrow> fst (on_text w2 msg s1) = Inr ()) \<and>
         (fst (on_text w2 msg s1) = Inr () \<or> fst (on_text w2 msg s1) = Inl TelegramError)"
proof -
  have pending: "userSessions s1 (msg_chat_id msg) = Some \<lparr>state = AWAITING_LOCATION\<rparr>"
    using assms by (simp add: on_callback_query_sessions_eq)
  show ?thesis
    using pending on_text_sessions_eq [OF pending, of w2] on_text_returns [of w2 msg s1]
    by (auto simp add: assms(3))
qed

text \<open>
  Claim C1. The claim asks for the entry to be gone after the text handler, also when
  the query fails. The handler deletes the entry in its \<^verbatim>\<open>catch\<close> block, but after
  the awaited failure report. In the run below the location action is selected, the
  user sends a text, the query fails and the platform refuses the failure report: the
  handler ends with the exception of that call and the entry of the chat is still
  \<open>AWAITING_LOCATION\<close>.
\<close>

theorem refused_report_keeps_session:
  "store_answer refusing_report_world (location_query ''Pune'') = Inl ''connection refused'' \<and>
   userSessions (snd (on_callback_query refusing_report_world location_button initial_state)) 7 =
     Some \<lparr>state = AWAITING_LOCATION\<rparr> \<and>
   on_text refusing_report_world pune_message
     (snd (on_callback_query refusing_report_world location_button initial_state)) =
     (Inl TelegramError,
      \<lparr>userSessions = [7 \<mapsto> \<lparr>state = AWAITING_LOCATION\<rparr>],
       effects =
         [AnswerCallbackQuery ''q1'',
          SessionSet 7 \<lparr>state = AWAITING_LOCATION\<rparr>,
          SendMessage 7 (pushpin @ '' Please enter the location you want to search for:'') None,
          SendMessage 7 (magnifier @ '' Searching for events in Pune...'') None,
          StoreSelect (location_query ''Pune''),
          ConsoleError ''Error processing text message:'',
          SendMessage 7 text_error_text None]\<rparr>)"
proof -
  let ?s1 = "\<lparr>userSessions = [7 \<mapsto> \<lparr>state = AWAITING_LOCATION\<rparr>],
       effects =
         [AnswerCallbackQuery ''q1'',
          SessionSet 7 \<lparr>state = AWAITING_LOCATION\<rparr>,
          SendMessage 7 (pushpin @ '' Please enter the location you want to search for:'')
            None]\<rparr>"
  have "wp (on_callback_query refusing_report_world location_button) initial_state
      (\<lambda>r s'. s' = ?s1)"
    by (simp add: on_callback_query_def location_button_def initial_state_def wp_rules
        emit_def refusing_report_world_def failing_store_world_def example_world_def)
  then have first: "snd (on_callback_query refusing_report_world location_button initial_state) =
      ?s1"
    unfolding wp_result .
  have "wp (on_text refusing_report_world pune_message) ?s1
      (\<lambda>r s'. (r, s') =
     (Inl TelegramError,
      \<lparr>userSessions = [7 \<mapsto> \<lparr>state = AWAITING_LOCATION\<rparr>],
       effects =
         [AnswerCallbackQuery ''q1'',
          SessionSet 7 \<lparr>state = AWAITING_LOCATION\<rparr>,
          SendMessage 7 (pushpin @ '' Please enter the location you want to search for:'') None,
          SendMessage 7 (magnifier @ '' Searching for events in Pune...'') None,
          StoreSelect (location_query ''Pune''),
          ConsoleError ''Error processing text message:'',
          SendMessage 7 text_error_text None]\<rparr>))"
    by (simp add: wp_on_text_pending [of _ _ "\<lparr>state = AWAITING_LOCATION\<rparr>"]
        pune_message_def wp_rules text_search_def text_failure_def store_answer_def emit_def
        refusing_report_world_def failing_store_world_def example_world_def)
  then have second: "on_text refusing_report_world pune_message ?s1 =
     (Inl TelegramError,
      \<lparr>userSessions = [7 \<mapsto> \<lparr>state = AWAITING_LOCATION\<rparr>],
       effects =
         [AnswerCallbackQuery ''q1'',
          SessionSet 7 \<lparr>state = AWAITING_LOCATION\<rparr>,
          SendMessage 7 (pushpin @ '' Please enter the location you want to search for:'') None,
          SendMessage 7 (magnifier @ '' Searching for events in Pune...'') None,
          StoreSelect (location_query ''Pune''),
          ConsoleError ''Error processing text message:'',
          SendMessage 7 text_error_text None]\<rparr>)"
    unfolding wp_result by simp
  show ?thesis
    unfolding first second
    by (simp add: store_answer_def refusing_report_world_def failing_store_world_def
        example_world_def)
qed

text \<open>
  Claim C2, as the specification states it, asks for the session entry to be deleted
  before the failure report is sent. In the run below the store fails and the report is
  the fourth effect, the deletion the fifth: the deletion does not come first.
\<close>

theorem failure_report_after_delete_counterexample:
  "store_answer failing_store_world (location_query ''Pune'') = Inl ''connection refused'' \<and>
   effects (snd (on_text failing_store_world pune_message awaiting_location_state)) =
     [SendMessage 7 (magnifier @ '' Searching for events in Pune...'') None,
      StoreSelect (location_query ''Pune''),
      ConsoleError ''Error processing text message:'',
      SendMessage 7 text_error_text None,
      SessionDelete 7] \<and>
   \<not> occurs_before (SessionDelete 7) (SendMessage 7 text_error_text None)
       (effects (snd (on_text failing_store_world pune_message awaiting_location_state)))"
proof -
  have run: "wp (on_text failing_store_world pune_message) awaiting_location_state
      (\<lambda>r s'. effects s' =
     [SendMessage 7 (magnifier @ '' Searching for events in Pune...'') None,
      StoreSelect (location_query ''Pune''),
      ConsoleError ''Error processing text message:'',
      SendMessage 7 text_error_text None,
      SessionDelete 7])"
    by (simp add: wp_on_text_pending [of _ _ "\<lparr>state = AWAITING_LOCATION\<rparr>"]
        awaiting_location_state_def pune_message_def wp_rules text_search_def
        text_failure_def store_answer_def failing_store_world_def example_world_def)
  have eff: "effects (snd (on_text failing_store_world pune_message awaiting_location_state)) =
     [SendMessage 7 (magnifier @ '' Searching for events in Pune...'') None,
      StoreSelect (location_query ''Pune''),
      ConsoleError ''Error processing text message:'',
      SendMessage 7 text_error_text None,
      SessionDelete 7]"
    using run unfolding wp_result .
  show ?thesis
    unfolding eff
    by (simp add: occurs_before_def store_answer_def failing_store_world_def
        example_world_def text_error_text_def)
qed

text \<open>
  Claim C2, amended. When the query of a pending search fails, the handler logs the
  error, sends the failure report while the entry is still in the session map, and then,
  the report accepted by the platform, deletes the entry as its last effect.
\<close>

theorem delete_follows_failure_report:
  assumes "userSessions s (msg_chat_id msg) = Some sess"
    and "telegram w (length (effects s))"
    and "store_error w
           (case state sess of
              AWAITING_LOCATION \<Rightarrow> location_query (msg_text msg)
            | AWAITING_CATEGORY \<Rightarrow> category_query (msg_text msg)) = Some m"
    and "telegram w (length (effects s) + 3)"
  shows "on_text w msg s =
     (Inr (),
      s\<lparr>userSessions := (userSessions s)(msg_chat_id msg := None),
        effects := effects s @
          [SendMessage (msg_chat_id msg)
             (case state sess of
                AWAITING_LOCATION \<Rightarrow>
                  magnifier @ '' Searching for events in '' @ msg_text msg @ ''...''
              | AWAITING_CATEGORY \<Rightarrow>
                  magnifier @ '' Searching for events in category '' @ msg_text msg @ ''...'')
             None,
           StoreSelect
             (case state sess of
                AWAITING_LOCATION \<Rightarrow> location_query (msg_text msg)
              | AWAITING_CATEGORY \<Rightarrow> category_query (msg_text msg)),
           ConsoleError ''Error processing text message:'',
           SendMessage (msg_chat_id msg) text_error_text None,
           SessionDelete (msg_chat_id msg)]\<rparr>)"
proof -
  obtain st where sess: "sess = \<lparr>state = st\<rparr>" by (cases sess) simp
  have "wp (on_text w msg) s (\<lambda>r s'. (r, s') = 
     (Inr (),
      s\<lparr>userSessions := (userSessions s)(msg_chat_id msg := None),
        effects := effects s @
          [SendMessage (msg_chat_id msg)
             (case state sess of
                AWAITING_LOCATION \<Rightarrow>
                  magnifier @ '' Searching for events in '' @ msg_text msg @ ''...''
              | AWAITING_CATEGORY \<Rightarrow>
                  magnifier @ '' Searching for events in category '' @ msg_text msg @ ''...'')
             None,
           StoreSelect
             (case state sess of
                AWAITING_LOCATION \<Rightarrow> location_query (msg_text msg)
              | AWAITING_CATEGORY \<Rightarrow> category_query (msg_text msg)),
           ConsoleError ''Error processing text message:'',
           SendMessage (msg_chat_id msg) text_error_text None,
           SessionDelete (msg_chat_id msg)]\<rparr>))"
    using assms(2-4) unfolding wp_on_text_pending [OF assms(1)] sess
    by (cases st)
      (simp_all add: wp_rules text_search_def text_failure_def store_answer_def emit_def
        eval_nat_numeral)
  then show ?thesis unfolding wp_result by simp
qed

theorem delete_follows_failure_report_witness:
  "on_text failing_store_world pune_message awaiting_location_state =
     (Inr (),
      \<lparr>userSessions = Map.empty,
       effects =
         [SendMessage 7 (magnifier @ '' Searching for events in Pune...'') None,
          StoreSelect (location_query ''Pune''),
          ConsoleError ''Error processing text message:'',
          SendMessage 7 text_error_text None,
          SessionDelete 7]\<rparr>)"
  using delete_follows_failure_report [of awaiting_location_state pune_message
      "\<lparr>state = AWAITING_LOCATION\<rparr>" failing_store_world "''connection refused''"]
  by (simp add: awaiting_location_state_def pune_message_def failing_store_world_def
      example_world_def)

text \<open>
  Claim C8. A text message from a chat identifier that has no pending session entry is
  ignored: the handler returns at once, nothing at all is recorded (so no query is sent
  to the store) and the session map is the one it was.
\<close>

theorem idle_text_is_ignored:
  assumes "userSessions s (msg_chat_id msg) = None"
  shows "on_text w msg s = (Inr (), s) \<and>
         searches (effects_of (on_text w msg) s) = [] \<and>
         userSessions (snd (on_text w msg s)) = userSessions s"
  using assms by (simp add: on_text_def effects_of_def searches_def)

theorem idle_text_is_ignored_witness:
  "userSessions initial_state (msg_chat_id pune_message) = None \<and>
   on_text example_world pune_message initial_state = (Inr (), initial_state) \<and>
   searches (effects_of (on_text example_world pune_message) initial_state) = []"
  using idle_text_is_ignored [of initial_state pune_message example_world]
  by (simp add: initial_state_def searches_def)

text \<open>
  Claim C3, as the specification states it, has every new selection overwrite the pending
  state. The handler stores the new state after it has acknowledged the callback, inside
  the same \<^verbatim>\<open>try\<close>. In the run below the location action is selected, then the
  category action, and the platform refuses the second acknowledgement: the entry of the
  chat is still \<open>AWAITING_LOCATION\<close>.
\<close>

theorem unacknowledged_selection_counterexample:
  "userSessions (snd (on_callback_query refusing_ack_world category_button
       (snd (on_callback_query refusing_ack_world location_button initial_state)))) =
     [7 \<mapsto> \<lparr>state = AWAITING_LOCATION\<rparr>] \<and>
   userSessions (snd (on_callback_query refusing_ack_world category_button
       (snd (on_callback_query refusing_ack_world location_button initial_state)))) 7 \<noteq>
     Some \<lparr>state = AWAITING_CATEGORY\<rparr>"
proof -
  have "wp (on_callback_query refusing_ack_world location_button) initial_state
      (\<lambda>r s'. length (effects s') = 3)"
    by (simp add: on_callback_query_def location_button_def initial_state_def wp_rules
        refusing_ack_world_def example_world_def)
  then have three:
    "length (effects (snd (on_callback_query refusing_ack_world location_button
       initial_state))) = 3"
    unfolding wp_result .
  show ?thesis
    by (simp add: on_callback_query_sessions_eq three)
      (simp add: refusing_ack_world_def example_world_def location_button_def
        category_button_def initial_state_def)
qed

text \<open>
  Claim C3, amended. A selection of one of the two search actions whose acknowledgement
  the platform accepts stores the new pending state under the chat identifier, whatever
  was stored there before, and touches no other key; a selection whose acknowledgement
  is refused leaves the session map as it was. The session map is a map, so a key has
  one value at most: after the location action and then the category action, the second
  acknowledged, the one entry of the chat is \<open>AWAITING_CATEGORY\<close>.
\<close>

theorem selection_overwrites_pending:
  "(telegram w (length (effects s)) \<and> cq_data cq = ''search_location'' \<longrightarrow>
      userSessions (snd (on_callback_query w cq s)) =
        (userSessions s)(cq_chat_id cq \<mapsto> \<lparr>state = AWAITING_LOCATION\<rparr>)) \<and>
   (telegram w (length (effects s)) \<and> cq_data cq = ''search_category'' \<longrightarrow>
      userSessions (snd (on_callback_query w cq s)) =
        (userSessions s)(cq_chat_id cq \<mapsto> \<lparr>state = AWAITING_CATEGORY\<rparr>)) \<and>
   (telegram w (length (effects s)) \<and> cq_data cq = ''search_category'' \<and>
    cq_data first_cq = ''search_location'' \<and> cq_chat_id first_cq = cq_chat_id cq \<and>
    s = snd (on_callback_query first_w first_cq first_s) \<longrightarrow>
      userSessions (snd (on_callback_query w cq s)) =
        (userSessions first_s)(cq_chat_id cq \<mapsto> \<lparr>state = AWAITING_CATEGORY\<rparr>)) \<and>
   (\<not> telegram w (length (effects s)) \<longrightarrow>
      userSessions (snd (on_callback_query w cq s)) = userSessions s)"
  by (auto simp add: on_callback_query_sessions_eq)

theorem selection_overwrites_pending_witness:
  "userSessions (snd (on_callback_query example_world location_button initial_state)) =
     [7 \<mapsto> \<lparr>state = AWAITING_LOCATION\<rparr>] \<and>
   userSessions (snd (on_callback_query example_world category_button
       (snd (on_callback_query example_world location_button initial_state)))) =
     [7 \<mapsto> \<lparr>state = AWAITING_CATEGORY\<rparr>]"
proof -
  have accepted: "telegram example_world n" for n
    by (simp add: example_world_def)
  have one: "userSessions (snd (on_callback_query example_world location_button
      initial_state)) = [7 \<mapsto> \<lparr>state = AWAITING_LOCATION\<rparr>]"
    using selection_overwrites_pending [where w = example_world and s = initial_state
        and cq = location_button, THEN conjunct1]
    by (simp add: accepted location_button_def initial_state_def)
  have two: "userSessions (snd (on_callback_query example_world category_button
       (snd (on_callback_query example_world location_button initial_state)))) =
     [7 \<mapsto> \<lparr>state = AWAITING_CATEGORY\<rparr>]"
    using selection_overwrites_pending [where w = example_world
        and s = "snd (on_callback_query example_world location_button initial_state)"
        and cq = category_button and first_cq = location_button
        and first_w = example_world and first_s = initial_state,
        THEN conjunct2, THEN conjunct2, THEN conjunct1]
    by (simp add: accepted category_button_def location_button_def initial_state_def)
  show ?thesis
    using one two by simp
qed

section \<open>The store\<close>

lemma run_query_subset:
  "set (run_query il ts q rows) \<subseteq> {e \<in> set rows. list_all (holds il ts e) (filters q)}"
proof -
  have "set (take n xs) \<subseteq> set xs" for n and xs :: "event list"
    by (rule set_take_subset)
  then show ?thesis
    by (auto simp add: run_query_def Let_def split: option.splits prod.splits if_splits
        dest!: in_set_takeD)
qed

lemma run_query_limit: "limit_rows q = Some n \<Longrightarrow> length (run_query il ts q rows) \<le> n"
  by (simp add: run_query_def Let_def)

lemma run_query_unlimited:
  "limit_rows q = None \<Longrightarrow>
   mset (run_query il ts q rows) = mset (filter (\<lambda>e. list_all (holds il ts e) (filters q)) rows)"
  by (simp add: run_query_def Let_def split: option.splits prod.splits)

lemma run_query_plain:
  "limit_rows q = None \<Longrightarrow> order_by q = None \<Longrightarrow>
   run_query il ts q rows = filter (\<lambda>e. list_all (holds il ts e) (filters q)) rows"
  by (simp add: run_query_def Let_def)

lemmas builder_defs = select_def gt_def lt_def eq_is_approved_def ilike_def textSearch_def
  order_def limit_def

lemma active_query_parts:
  "filters (active_query t) = [Gt event_enddate_col t, Eq_is_approved True]"
  "limit_rows (active_query t) = None"
  by (simp_all add: active_query_def builder_defs)

lemma past_query_parts:
  "filters (past_query t) = [Lt event_enddate_col t, Eq_is_approved True]"
  "limit_rows (past_query t) = Some 5"
  by (simp_all add: past_query_def builder_defs)

lemma popular_query_parts:
  "filters popular_query = [Eq_is_approved True]"
  "limit_rows popular_query = Some 5"
  by (simp_all add: popular_query_def builder_defs)

lemma location_query_parts:
  "filters (location_query t) = [Ilike event_location_col (''%'' @ t @ ''%''), Eq_is_approved True]"
  "limit_rows (location_query t) = None"
  "order_by (location_query t) = None"
  by (simp_all add: location_query_def builder_defs)

lemma category_query_parts:
  "filters (category_query t) = [Ilike event_category_col (''%'' @ t @ ''%''), Eq_is_approved True]"
  "limit_rows (category_query t) = None"
  "order_by (category_query t) = None"
  by (simp_all add: category_query_def builder_defs)

lemma ask_query_parts:
  "filters (ask_query t) = [Eq_is_approved True, TextSearch event_description_col t]"
  "limit_rows (ask_query t) = Some 5"
  by (simp_all add: ask_query_def builder_defs)

lemma store_rows_subset:
  "set (store_rows w q) \<subseteq> {e \<in> set (event_details w). list_all (holds (ilike_op w) (fts w) e) (filters q)}"
  using run_query_subset [of "ilike_op w" "fts w" q "event_details w"]
  by (auto simp add: store_rows_def store_answer_def split: option.splits)

lemma store_rows_limit: "limit_rows q = Some n \<Longrightarrow> length (store_rows w q) \<le> n"
  by (simp add: store_rows_def store_answer_def run_query_limit split: option.splits)

lemma store_rows_ok:
  "store_error w q = None \<Longrightarrow> store_rows w q = run_query (ilike_op w) (fts w) q (event_details w)"
  by (simp add: store_rows_def store_answer_def)

section \<open>What a handler sends\<close>

lemma rendered_simps [simp]:
  "rendered [] = []"
  "rendered (x # xs) = html_text x @ rendered xs"
  "rendered (xs @ ys) = rendered xs @ rendered ys"
  "rendered (map (\<lambda>e. SendMessage c (f e) (Some HTML)) es) = map f es"
  by (simp_all add: rendered_def) (induction es, simp_all)

lemma searches_simps [simp]:
  "searches [] = []"
  "searches (x # xs) = select_of x @ searches xs"
  "searches (xs @ ys) = searches xs @ searches ys"
  "searches (map (\<lambda>e. SendMessage c (f e) pm) es) = []"
  by (simp_all add: searches_def) 

lemma ai_calls_simps [simp]:
  "ai_calls [] = []"
  "ai_calls (x # xs) = prompt_of x @ ai_calls xs"
  "ai_calls (xs @ ys) = ai_calls xs @ ai_calls ys"
  "ai_calls (map (\<lambda>e. SendMessage c (f e) pm) es) = []"
  by (simp_all add: ai_calls_def)

lemma prefix_map_take [simp]: "prefix (map f (take k xs)) (map f xs)"
  by (metis map_mono_prefix take_is_prefix)

lemma effects_of_wp:
  "wp m s (\<lambda>r s'. P (drop (length (effects s)) (effects s'))) \<Longrightarrow> P (effects_of m s)"
  by (simp add: wp_result effects_of_def)

lemma handleActiveHackathons_sends:
  "prefix (rendered (effects_of (handleActiveHackathons w c) s))
     (map (formatEventMessage (moment_format w) (number_text w)) (store_rows w (active_query (clock w)))) \<and>
   searches (effects_of (handleActiveHackathons w c) s) = [active_query (clock w)] \<and>
   ai_calls (effects_of (handleActiveHackathons w c) s) = []"
  by (rule effects_of_wp)
    (simp add: handleActiveHackathons_def wp_rules store_rows_def split: sum.splits)

lemma handleActiveHackathons_sends_all:
  assumes "\<forall>n. telegram w n"
  shows "rendered (effects_of (handleActiveHackathons w c) s) =
           map (formatEventMessage (moment_format w) (number_text w)) (store_rows w (active_query (clock w)))"
  by (rule effects_of_wp)
    (simp add: handleActiveHackathons_def wp_rules store_rows_def assms attempts_all accepted_all
      split: sum.splits)

lemma handlePastEvents_sends:
  "prefix (rendered (effects_of (handlePastEvents w c) s))
     (map (formatEventMessage (moment_format w) (number_text w)) (store_rows w (past_query (clock w)))) \<and>
   searches (effects_of (handlePastEvents w c) s) = [past_query (clock w)] \<and>
   ai_calls (effects_of (handlePastEvents w c) s) = []"
  by (rule effects_of_wp)
    (simp add: handlePastEvents_def wp_rules store_rows_def split: sum.splits)

lemma handlePastEvents_sends_all:
  assumes "\<forall>n. telegram w n"
  shows "rendered (effects_of (handlePastEvents w c) s) =
           map (formatEventMessage (moment_format w) (number_text w)) (store_rows w (past_query (clock w)))"
  by (rule effects_of_wp)
    (simp add: handlePastEvents_def wp_rules store_rows_def assms attempts_all accepted_all
      split: sum.splits)

lemma handlePopularEvents_sends:
  "prefix (rendered (effects_of (handlePopularEvents w c) s))
     (map (formatEventMessage (moment_format w) (number_text w)) (store_rows w (popular_query))) \<and>
   searches (effects_of (handlePopularEvents w c) s) = [popular_query] \<and>
   ai_calls (effects_of (handlePopularEvents w c) s) = []"
  by (rule effects_of_wp)
    (simp add: handlePopularEvents_def wp_rules store_rows_def split: sum.splits)

lemma handlePopularEvents_sends_all:
  assumes "\<forall>n. telegram w n"
  shows "rendered (effects_of (handlePopularEvents w c) s) =
           map (formatEventMessage (moment_format w) (number_text w)) (store_rows w (popular_query))"
  by (rule effects_of_wp)
    (simp add: handlePopularEvents_def wp_rules store_rows_def assms attempts_all accepted_all
      split: sum.splits)

lemma effects_of_on_text_wp:
  assumes "userSessions s (msg_chat_id msg) = Some sess"
    and "wp (io_try (text_search w (msg_chat_id msg) (msg_text msg) sess)
           (\<lambda>error. text_failure w (msg_chat_id msg))) s
           (\<lambda>r s'. P (drop (length (effects s)) (effects s')))"
  shows "P (effects_of (on_text w msg) s)"
  using assms(2) unfolding wp_on_text_pending [OF assms(1), symmetric]
  by (rule effects_of_wp)

lemma on_text_sends:
  assumes "userSessions s (msg_chat_id msg) = Some sess"
    and "q = (case state sess of
                AWAITING_LOCATION \<Rightarrow> location_query (msg_text msg)
              | AWAITING_CATEGORY \<Rightarrow> category_query (msg_text msg))"
  shows "prefix (rendered (effects_of (on_text w msg) s))
           (map (formatEventMessage (moment_format w) (number_text w)) (store_rows w q)) \<and>
         prefix (searches (effects_of (on_text w msg) s)) [q]"
proof -
  obtain st where sess: "sess = \<lparr>state = st\<rparr>" by (cases sess) simp
  show ?thesis
    unfolding assms(2) sess
    by (rule effects_of_on_text_wp [OF assms(1)], cases st)
      (simp_all add: sess text_search_def text_failure_def wp_rules store_rows_def
        split: sum.splits)
qed

lemma on_text_sends_all:
  assumes "userSessions s (msg_chat_id msg) = Some sess"
    and "q = (case state sess of
                AWAITING_LOCATION \<Rightarrow> location_query (msg_text msg)
              | AWAITING_CATEGORY \<Rightarrow> category_query (msg_text msg))"
    and "\<forall>n. telegram w n"
  shows "searches (effects_of (on_text w msg) s) = [q] \<and>
         rendered (effects_of (on_text w msg) s) =
           map (formatEventMessage (moment_format w) (number_text w)) (store_rows w q)"
proof -
  obtain st where sess: "sess = \<lparr>state = st\<rparr>" by (cases sess) simp
  show ?thesis
    unfolding assms(2) sess
    by (rule effects_of_on_text_wp [OF assms(1)], cases st)
      (simp_all add: sess text_search_def text_failure_def wp_rules store_rows_def
        assms(3) attempts_all accepted_all split: sum.splits)
qed

lemma on_text_searches:
  assumes "userSessions s (msg_chat_id msg) = Some sess"
    and "q = (case state sess of
                AWAITING_LOCATION \<Rightarrow> location_query (msg_text msg)
              | AWAITING_CATEGORY \<Rightarrow> category_query (msg_text msg))"
  shows "searches (effects_of (on_text w msg) s) =
           (if telegram w (length (effects s)) then [q] else [])"
proof -
  obtain st where sess: "sess = \<lparr>state = st\<rparr>" by (cases sess) simp
  show ?thesis
    unfolding assms(2) sess
    by (rule effects_of_on_text_wp [OF assms(1)], cases st)
      (simp_all add: sess text_search_def text_failure_def wp_rules split: sum.splits)
qed

lemma on_ask_sends_all:
  assumes "\<forall>n. telegram w n" and "mistral w (ask_prompt q) = Some a"
  shows "rendered (effects_of (on_ask w c q) s) =
           map (formatEventMessage (moment_format w) (number_text w))
             (store_rows w (ask_query q))"
  by (rule effects_of_wp)
    (simp add: on_ask_def wp_rules store_rows_def assms attempts_all accepted_all
      split: sum.splits)

lemma on_ask_sends:
  "prefix (rendered (effects_of (on_ask w c q) s))
     (map (formatEventMessage (moment_format w) (number_text w)) (store_rows w (ask_query q))) \<and>
   prefix (ai_calls (effects_of (on_ask w c q) s)) [ask_prompt q] \<and>
   prefix (searches (effects_of (on_ask w c q) s)) [ask_query q] \<and>
   (telegram w (length (effects s)) \<longrightarrow>
      ai_calls (effects_of (on_ask w c q) s) = [ask_prompt q]) \<and>
   (telegram w (length (effects s)) \<and> mistral w (ask_prompt q) \<noteq> None \<and>
    telegram w (length (effects s) + 2) \<longrightarrow>
      searches (effects_of (on_ask w c q) s) = [ask_query q])"
  by (rule effects_of_wp)
    (auto simp add: on_ask_def wp_rules store_rows_def split: sum.splits option.splits)

section \<open>Claims about the queries\<close>

lemma ask_exec_command:
  "first_line q \<noteq> [] \<Longrightarrow> ask_exec (''/ask '' @ q) = Some (first_line q)"
  by simp

lemma on_ask_calls:
  "ai_calls (effects_of (on_ask w c q) s) =
     (if telegram w (length (effects s)) then [ask_prompt q] else []) \<and>
   searches (effects_of (on_ask w c q) s) =
     (if telegram w (length (effects s)) \<and> mistral w (ask_prompt q) \<noteq> None \<and>
         telegram w (length (effects s) + 2)
      then [ask_query q] else [])"
  by (rule effects_of_wp)
    (auto simp add: on_ask_def wp_rules split: sum.splits option.splits)

lemma ask_rows:
  "store_rows w (ask_query q) =
     (case store_error w (ask_query q) of
        Some m \<Rightarrow> []
      | None \<Rightarrow>
          take 5 (filter (\<lambda>e. is_approved e \<and> fts w q (event_description e))
            (event_details w)))"
  by (simp add: store_rows_def store_answer_def run_query_def ask_query_parts
      ask_query_def builder_defs split: option.splits)

text \<open>
  Claim C4, as the specification states it, has exactly one AI call and exactly one
  search for every text after \<^verbatim>\<open>/ask\<close>, the search made with that text. In the first
  run below the AI service fails: the handler has called it once and sends no search.
  In the second run the text after \<^verbatim>\<open>/ask\<close> has two lines: the group of the
  regular expression stops at the end of the first line, and the search is made with
  that line alone.
\<close>

theorem ask_without_search_counterexample:
  "ai_calls (effects_of (onText_ask silent_ai_world ask_message) initial_state) =
     [ask_prompt ''conference in Berlin next month''] \<and>
   searches (effects_of (onText_ask silent_ai_world ask_message) initial_state) = [] \<and>
   msg_text two_line_message = ''/ask '' @ ''hack\<newline>week'' \<and>
   searches (effects_of (onText_ask example_world two_line_message) initial_state) =
     [ask_query ''hack''] \<and>
   ask_query ''hack'' \<noteq> ask_query ''hack\<newline>week''"
proof -
  have one: "onText_ask silent_ai_world ask_message =
      on_ask silent_ai_world 7 ''conference in Berlin next month''"
    by (simp add: onText_ask_def ask_message_def line_end_def)
  have two: "onText_ask example_world two_line_message = on_ask example_world 7 ''hack''"
    by (simp add: onText_ask_def two_line_message_def line_end_def)
  show ?thesis
    unfolding one two
    by (simp add: on_ask_calls)
      (simp add: silent_ai_world_def example_world_def initial_state_def
        two_line_message_def ask_query_def builder_defs)
qed

text \<open>
  Claim C4, amended. The handler runs for a message whose text matches the regular
  expression, with the captured text \<open>q\<close>: for the command \<^verbatim>\<open>/ask\<close> followed by a
  text, \<open>q\<close> is the first line of that text, so all of it when it has one line. The
  handler calls the AI service once if the platform accepts the first status message,
  and not at all otherwise. It sends one search if moreover the AI service answers and
  the platform accepts the second status message, and none otherwise. The search is the
  full-text search for \<open>q\<close> itself on the descriptions of approved events, limited to
  5 rows: the answer of the AI service is no part of it. At most 5 events are rendered,
  and when the platform accepts every message and the AI service answers, the rendered
  events are the rows of the answer.
\<close>

theorem ask_searches_with_captured_text:
  "(q \<noteq> [] \<and> first_line q = q \<longrightarrow> ask_exec (''/ask '' @ q) = Some q) \<and>
   (first_line q \<noteq> [] \<longrightarrow> ask_exec (''/ask '' @ q) = Some (first_line q)) \<and>
   (ask_exec (msg_text msg) = Some q \<longrightarrow> onText_ask w msg = on_ask w (msg_chat_id msg) q) \<and>
   ai_calls (effects_of (on_ask w c q) s) =
     (if telegram w (length (effects s)) then [ask_prompt q] else []) \<and>
   searches (effects_of (on_ask w c q) s) =
     (if telegram w (length (effects s)) \<and> mistral w (ask_prompt q) \<noteq> None \<and>
         telegram w (length (effects s) + 2)
      then [ask_query q] else []) \<and>
   filters (ask_query q) = [Eq_is_approved True, TextSearch event_description_col q] \<and>
   limit_rows (ask_query q) = Some 5 \<and>
   length (rendered (effects_of (on_ask w c q) s)) \<le> 5 \<and>
   ((\<forall>n. telegram w n) \<and> mistral w (ask_prompt q) = Some a \<longrightarrow>
      rendered (effects_of (on_ask w c q) s) =
        (case store_error w (ask_query q) of
           Some m \<Rightarrow> []
         | None \<Rightarrow>
             map (formatEventMessage (moment_format w) (number_text w))
               (take 5 (filter (\<lambda>e. is_approved e \<and> fts w q (event_description e))
                  (event_details w)))))"
proof -
  note sends = on_ask_sends [of w c q s]
  have capture:
    "q \<noteq> [] \<and> first_line q = q \<longrightarrow> ask_exec (''/ask '' @ q) = Some q"
    "first_line q \<noteq> [] \<longrightarrow> ask_exec (''/ask '' @ q) = Some (first_line q)"
    using ask_exec_command [of q] by auto
  have dispatch:
    "ask_exec (msg_text msg) = Some q \<longrightarrow> onText_ask w msg = on_ask w (msg_chat_id msg) q"
    by (simp add: onText_ask_def)
  have "length (rendered (effects_of (on_ask w c q) s)) \<le>
      length (map (formatEventMessage (moment_format w) (number_text w))
        (store_rows w (ask_query q)))"
    using sends by (blast intro: prefix_length_le)
  moreover have "length (store_rows w (ask_query q)) \<le> 5"
    by (rule store_rows_limit) (simp add: ask_query_parts)
  ultimately have five: "length (rendered (effects_of (on_ask w c q) s)) \<le> 5"
    by simp
  have all: "(\<forall>n. telegram w n) \<and> mistral w (ask_prompt q) = Some a \<longrightarrow>
      rendered (effects_of (on_ask w c q) s) =
        (case store_error w (ask_query q) of
           Some m \<Rightarrow> []
         | None \<Rightarrow>
             map (formatEventMessage (moment_format w) (number_text w))
               (take 5 (filter (\<lambda>e. is_approved e \<and> fts w q (event_description e))
                  (event_details w))))"
    using on_ask_sends_all [of w q a c s]
    by (auto simp add: ask_rows split: option.splits)
  show ?thesis
    using capture dispatch on_ask_calls [of w c q s] five all
    by (simp add: ask_query_parts)
qed

theorem ask_searches_with_captured_text_witness:
  "ask_exec (msg_text ask_message) = Some ''conference in Berlin next month'' \<and>
   ai_calls (effects_of (onText_ask example_world ask_message) initial_state) =
     [ask_prompt ''conference in Berlin next month''] \<and>
   searches (effects_of (onText_ask example_world ask_message) initial_state) =
     [ask_query ''conference in Berlin next month''] \<and>
   rendered (effects_of (onText_ask example_world ask_message) initial_state) = []"
proof -
  have line: "first_line ''conference in Berlin next month'' =
      ''conference in Berlin next month''"
    by (simp add: line_end_def)
  have whole: "msg_text ask_message = ''/ask '' @ ''conference in Berlin next month''"
    by (simp add: ask_message_def)
  note t = ask_searches_with_captured_text [where q = "''conference in Berlin next month''"
      and msg = ask_message and w = example_world and c = 7 and s = initial_state
      and a = "''events in Pune''"]
  have capture: "ask_exec (msg_text ask_message) = Some ''conference in Berlin next month''"
    unfolding whole using t line by simp
  have run: "onText_ask example_world ask_message =
      on_ask example_world 7 ''conference in Berlin next month''"
    using t capture by (simp add: ask_message_def)
  show ?thesis
    unfolding run using t capture
    by (simp add: example_world_def initial_state_def)
qed

text \<open>Each route of the HTTP surface sends the query of the chat handler of the same name.\<close>

lemma routes_as_queries:
  "get_active w = respond (store_answer w (active_query (clock w)))"
  "get_past w = respond (store_answer w (past_query (clock w)))"
  "get_location w t = respond (store_answer w (location_query t))"
  "get_category w t = respond (store_answer w (category_query t))"
  "get_popular w = respond (store_answer w popular_query)"
  by (simp_all add: get_active_def get_past_def get_location_def get_category_def
      get_popular_def active_query_def past_query_def location_query_def category_query_def
      popular_query_def)

lemma respond_rows:
  "respond (store_answer w q) = Json200 rows \<Longrightarrow>
   store_error w q = None \<and> rows = run_query (ilike_op w) (fts w) q (event_details w)"
  by (simp add: respond_def store_answer_def split: option.splits sum.splits)

lemma respond_answer:
  "respond (store_answer w q) =
     (case store_error w q of
        Some m \<Rightarrow> Json500 m
      | None \<Rightarrow> Json200 (run_query (ilike_op w) (fts w) q (event_details w)))"
  by (simp add: respond_def store_answer_def split: option.splits)

lemma store_rows_answer:
  "store_rows w q =
     (case store_error w q of
        Some m \<Rightarrow> []
      | None \<Rightarrow> run_query (ilike_op w) (fts w) q (event_details w))"
  by (simp add: store_rows_def store_answer_def split: option.splits)

lemma rendered_limit:
  assumes "prefix (rendered xs) (map f (store_rows w q))" and "limit_rows q = Some n"
  shows "length (rendered xs) \<le> n"
  using prefix_length_le [OF assms(1)] store_rows_limit [OF assms(2), of w] by simp

lemma query_rows:
  "run_query il ts (past_query now) rows =
     take 5 (sort_key (\<lambda>e. - event_enddate e)
       (filter (\<lambda>e. event_enddate e < now \<and> is_approved e) rows))"
  "run_query il ts popular_query rows =
     take 5 (sort_key (\<lambda>e. - event_likes e) (filter is_approved rows))"
  "run_query il ts (active_query now) rows =
     sort_key (\<lambda>e. - created_at e)
       (filter (\<lambda>e. event_enddate e > now \<and> is_approved e) rows)"
  "run_query il ts (location_query t) rows =
     filter (\<lambda>e. il (''%'' @ t @ ''%'') (event_location e) \<and> is_approved e) rows"
  "run_query il ts (category_query t) rows =
     filter (\<lambda>e. il (''%'' @ t @ ''%'') (event_category e) \<and> is_approved e) rows"
  by (simp_all add: run_query_def past_query_def popular_query_def active_query_def
      location_query_def category_query_def builder_defs)

text \<open>
  Claim C5. The past and the popular list hold at most 5 records: the route answers, and
  the chat handler renders, the first 5 of the approved rows that match, in the order of
  the query. The active list and the two filters have no cap: the route answers with
  every approved row of the table that matches, and the chat handler renders every one
  of them when the platform accepts every message. A route answers 500 exactly when the
  store reports an error, and the chat handler then renders nothing.
\<close>

theorem list_caps:
  "get_past w =
     (case store_error w (past_query (clock w)) of
        Some m \<Rightarrow> Json500 m
      | None \<Rightarrow>
          Json200 (take 5 (sort_key (\<lambda>e. - event_enddate e)
            (filter (\<lambda>e. event_enddate e < clock w \<and> is_approved e) (event_details w))))) \<and>
   get_popular w =
     (case store_error w popular_query of
        Some m \<Rightarrow> Json500 m
      | None \<Rightarrow>
          Json200 (take 5 (sort_key (\<lambda>e. - event_likes e)
            (filter is_approved (event_details w))))) \<and>
   get_active w =
     (case store_error w (active_query (clock w)) of
        Some m \<Rightarrow> Json500 m
      | None \<Rightarrow>
          Json200 (sort_key (\<lambda>e. - created_at e)
            (filter (\<lambda>e. event_enddate e > clock w \<and> is_approved e) (event_details w)))) \<and>
   get_location w t =
     (case store_error w (location_query t) of
        Some m \<Rightarrow> Json500 m
      | None \<Rightarrow>
          Json200 (filter (\<lambda>e. ilike_op w (''%'' @ t @ ''%'') (event_location e) \<and>
                              is_approved e) (event_details w))) \<and>
   get_category w t =
     (case store_error w (category_query t) of
        Some m \<Rightarrow> Json500 m
      | None \<Rightarrow>
          Json200 (filter (\<lambda>e. ilike_op w (''%'' @ t @ ''%'') (event_category e) \<and>
                              is_approved e) (event_details w))) \<and>
   (get_past w = Json200 rows \<longrightarrow> length rows \<le> 5) \<and>
   (get_popular w = Json200 rows \<longrightarrow> length rows \<le> 5) \<and>
   length (rendered (effects_of (handlePastEvents w c) s)) \<le> 5 \<and>
   length (rendered (effects_of (handlePopularEvents w c) s)) \<le> 5 \<and>
   (get_active w = Json200 rows \<longrightarrow>
      mset rows =
        mset (filter (\<lambda>e. event_enddate e > clock w \<and> is_approved e) (event_details w))) \<and>
   ((\<forall>n. telegram w n) \<longrightarrow>
      rendered (effects_of (handlePastEvents w c) s) =
        (case store_error w (past_query (clock w)) of
           Some m \<Rightarrow> []
         | None \<Rightarrow>
             map (formatEventMessage (moment_format w) (number_text w))
               (take 5 (sort_key (\<lambda>e. - event_enddate e)
                  (filter (\<lambda>e. event_enddate e < clock w \<and> is_approved e)
                     (event_details w)))))) \<and>
   ((\<forall>n. telegram w n) \<longrightarrow>
      rendered (effects_of (handlePopularEvents w c) s) =
        (case store_error w popular_query of
           Some m \<Rightarrow> []
         | None \<Rightarrow>
             map (formatEventMessage (moment_format w) (number_text w))
               (take 5 (sort_key (\<lambda>e. - event_likes e)
                  (filter is_approved (event_details w)))))) \<and>
   ((\<forall>n. telegram w n) \<longrightarrow>
      rendered (effects_of (handleActiveHackathons w c) s) =
        (case store_error w (active_query (clock w)) of
           Some m \<Rightarrow> []
         | None \<Rightarrow>
             map (formatEventMessage (moment_format w) (number_text w))
               (sort_key (\<lambda>e. - created_at e)
                  (filter (\<lambda>e. event_enddate e > clock w \<and> is_approved e)
                     (event_details w))))) \<and>
   ((\<forall>n. telegram w n) \<and>
    userSessions s (msg_chat_id msg) = Some \<lparr>state = AWAITING_LOCATION\<rparr> \<longrightarrow>
      rendered (effects_of (on_text w msg) s) =
        (case store_error w (location_query (msg_text msg)) of
           Some m \<Rightarrow> []
         | None \<Rightarrow>
             map (formatEventMessage (moment_format w) (number_text w))
               (filter (\<lambda>e. ilike_op w (''%'' @ msg_text msg @ ''%'') (event_location e) \<and>
                            is_approved e) (event_details w)))) \<and>
   ((\<forall>n. telegram w n) \<and>
    userSessions s (msg_chat_id msg) = Some \<lparr>state = AWAITING_CATEGORY\<rparr> \<longrightarrow>
      rendered (effects_of (on_text w msg) s) =
        (case store_error w (category_query (msg_text msg)) of
           Some m \<Rightarrow> []
         | None \<Rightarrow>
             map (formatEventMessage (moment_format w) (number_text w))
               (filter (\<lambda>e. ilike_op w (''%'' @ msg_text msg @ ''%'') (event_category e) \<and>
                            is_approved e) (event_details w))))"
proof -
  have routes:
    "get_past w =
     (case store_error w (past_query (clock w)) of
        Some m \<Rightarrow> Json500 m
      | None \<Rightarrow>
          Json200 (take 5 (sort_key (\<lambda>e. - event_enddate e)
            (filter (\<lambda>e. event_enddate e < clock w \<and> is_approved e) (event_details w)))))"
    "get_popular w =
     (case store_error w popular_query of
        Some m \<Rightarrow> Json500 m
      | None \<Rightarrow>
          Json200 (take 5 (sort_key (\<lambda>e. - event_likes e)
            (filter is_approved (event_details w)))))"
    "get_active w =
     (case store_error w (active_query (clock w)) of
        Some m \<Rightarrow> Json500 m
      | None \<Rightarrow>
          Json200 (sort_key (\<lambda>e. - created_at e)
            (filter (\<lambda>e. event_enddate e > clock w \<and> is_approved e) (event_details w))))"
    "get_location w t =
     (case store_error w (location_query t) of
        Some m \<Rightarrow> Json500 m
      | None \<Rightarrow>
          Json200 (filter (\<lambda>e. ilike_op w (''%'' @ t @ ''%'') (event_location e) \<and>
                              is_approved e) (event_details w)))"
    "get_category w t =
     (case store_error w (category_query t) of
        Some m \<Rightarrow> Json500 m
      | None \<Rightarrow>
          Json200 (filter (\<lambda>e. ilike_op w (''%'' @ t @ ''%'') (event_category e) \<and>
                              is_approved e) (event_details w)))"
    by (simp_all add: routes_as_queries respond_answer query_rows split: option.splits)
  have caps:
    "get_past w = Json200 rows \<longrightarrow> length rows \<le> 5"
    "get_popular w = Json200 rows \<longrightarrow> length rows \<le> 5"
    unfolding routes by (auto split: option.splits)
  have chat_past: "length (rendered (effects_of (handlePastEvents w c) s)) \<le> 5"
    using handlePastEvents_sends [of w c s]
    by (auto simp add: past_query_parts intro: rendered_limit)
  have chat_popular: "length (rendered (effects_of (handlePopularEvents w c) s)) \<le> 5"
    using handlePopularEvents_sends [of w c s]
    by (auto simp add: popular_query_parts intro: rendered_limit)
  have active: "get_active w = Json200 rows \<longrightarrow>
      mset rows =
        mset (filter (\<lambda>e. event_enddate e > clock w \<and> is_approved e) (event_details w))"
    unfolding routes by (auto split: option.splits)
  have chat_all:
    "(\<forall>n. telegram w n) \<longrightarrow>
      rendered (effects_of (handlePastEvents w c) s) =
        (case store_error w (past_query (clock w)) of
           Some m \<Rightarrow> []
         | None \<Rightarrow>
             map (formatEventMessage (moment_format w) (number_text w))
               (take 5 (sort_key (\<lambda>e. - event_enddate e)
                  (filter (\<lambda>e. event_enddate e < clock w \<and> is_approved e)
                     (event_details w)))))"
    "(\<forall>n. telegram w n) \<longrightarrow>
      rendered (effects_of (handlePopularEvents w c) s) =
        (case store_error w popular_query of
           Some m \<Rightarrow> []
         | None \<Rightarrow>
             map (formatEventMessage (moment_format w) (number_text w))
               (take 5 (sort_key (\<lambda>e. - event_likes e)
                  (filter is_approved (event_details w)))))"
    "(\<forall>n. telegram w n) \<longrightarrow>
      rendered (effects_of (handleActiveHackathons w c) s) =
        (case store_error w (active_query (clock w)) of
           Some m \<Rightarrow> []
         | None \<Rightarrow>
             map (formatEventMessage (moment_format w) (number_text w))
               (sort_key (\<lambda>e. - created_at e)
                  (filter (\<lambda>e. event_enddate e > clock w \<and> is_approved e)
                     (event_details w))))"
    using handlePastEvents_sends_all [of w c s] handlePopularEvents_sends_all [of w c s]
      handleActiveHackathons_sends_all [of w c s]
    by (auto simp add: store_rows_answer query_rows split: option.splits)
  have chat_location:
    "(\<forall>n. telegram w n) \<and>
     userSessions s (msg_chat_id msg) = Some \<lparr>state = AWAITING_LOCATION\<rparr> \<longrightarrow>
      rendered (effects_of (on_text w msg) s) =
        (case store_error w (location_query (msg_text msg)) of
           Some m \<Rightarrow> []
         | None \<Rightarrow>
             map (formatEventMessage (moment_format w) (number_text w))
               (filter (\<lambda>e. ilike_op w (''%'' @ msg_text msg @ ''%'') (event_location e) \<and>
                            is_approved e) (event_details w)))"
    using on_text_sends_all [of s msg "\<lparr>state = AWAITING_LOCATION\<rparr>" _ w]
    by (auto simp add: store_rows_answer query_rows split: option.splits)
  have chat_category:
    "(\<forall>n. telegram w n) \<and>
     userSessions s (msg_chat_id msg) = Some \<lparr>state = AWAITING_CATEGORY\<rparr> \<longrightarrow>
      rendered (effects_of (on_text w msg) s) =
        (case store_error w (category_query (msg_text msg)) of
           Some m \<Rightarrow> []
         | None \<Rightarrow>
             map (formatEventMessage (moment_format w) (number_text w))
               (filter (\<lambda>e. ilike_op w (''%'' @ msg_text msg @ ''%'') (event_category e) \<and>
                            is_approved e) (event_details w)))"
    using on_text_sends_all [of s msg "\<lparr>state = AWAITING_CATEGORY\<rparr>" _ w]
    by (auto simp add: store_rows_answer query_rows split: option.splits)
  show ?thesis
    using routes caps chat_past chat_popular active chat_all chat_location chat_category
    by blast
qed

lemma crowded_world_parts:
  "store_error crowded_world q = None" "store_error late_world q = None"
  "telegram crowded_world n" "telegram late_world n"
  "clock crowded_world = 250" "clock late_world = 400"
  "ilike_op crowded_world = ilike_match"
  "moment_format crowded_world = plain_format" "moment_format late_world = plain_format"
  "number_text crowded_world = plain_number" "number_text late_world = plain_number"
  "event_details late_world = event_details crowded_world"
  by (simp_all add: crowded_world_def late_world_def example_world_def)

lemma crowded_matches:
  "filter (\<lambda>e. event_enddate e < 400 \<and> is_approved e) (event_details crowded_world) =
     event_details crowded_world"
  "filter is_approved (event_details crowded_world) = event_details crowded_world"
  "filter (\<lambda>e. 250 < event_enddate e \<and> is_approved e) (event_details crowded_world) =
     event_details crowded_world"
  "filter (\<lambda>e. ilike_match ''%un%'' (event_location e) \<and> is_approved e)
     (event_details crowded_world) = event_details crowded_world"
  "filter (\<lambda>e. ilike_match ''%ec%'' (event_category e) \<and> is_approved e)
     (event_details crowded_world) = event_details crowded_world"
  "filter (\<lambda>e. ilike_match ''%Pune%'' (event_location e) \<and> is_approved e)
     (event_details crowded_world) = event_details crowded_world"
  "sort_key (\<lambda>e. - event_enddate e) (event_details crowded_world) =
     event_details crowded_world"
  "sort_key (\<lambda>e. - event_likes e) (event_details crowded_world) =
     event_details crowded_world"
  "sort_key (\<lambda>e. - created_at e) (event_details crowded_world) =
     event_details crowded_world"
  by (simp_all add: crowded_world_def example_world_def example_event_def ilike_match_def
      lower_ascii_def star_to_percent_def)

theorem list_caps_witness:
  "get_past late_world = Json200 (take 5 (event_details crowded_world)) \<and>
   get_popular crowded_world = Json200 (take 5 (event_details crowded_world)) \<and>
   get_active crowded_world = Json200 (event_details crowded_world) \<and>
   get_location crowded_world ''un'' = Json200 (event_details crowded_world) \<and>
   get_category crowded_world ''ec'' = Json200 (event_details crowded_world) \<and>
   length (event_details crowded_world) = 6 \<and>
   rendered (effects_of (handlePastEvents late_world 7) initial_state) =
     map (formatEventMessage plain_format plain_number)
       (take 5 (event_details crowded_world)) \<and>
   rendered (effects_of (handlePopularEvents crowded_world 7) initial_state) =
     map (formatEventMessage plain_format plain_number)
       (take 5 (event_details crowded_world)) \<and>
   rendered (effects_of (handleActiveHackathons crowded_world 7) initial_state) =
     map (formatEventMessage plain_format plain_number) (event_details crowded_world) \<and>
   rendered (effects_of (on_text crowded_world pune_message) awaiting_location_state) =
     map (formatEventMessage plain_format plain_number) (event_details crowded_world)"
proof -
  have six: "length (event_details crowded_world) = 6"
    by (simp add: crowded_world_def)
  have pending: "userSessions awaiting_location_state (msg_chat_id pune_message) =
      Some \<lparr>state = AWAITING_LOCATION\<rparr>" "msg_text pune_message = ''Pune''"
    by (simp_all add: awaiting_location_state_def pune_message_def)
  have past: "get_past late_world = Json200 (take 5 (event_details crowded_world))"
    using list_caps [where w = late_world, THEN conjunct1]
    by (simp add: crowded_world_parts crowded_matches)
  have popular: "get_popular crowded_world = Json200 (take 5 (event_details crowded_world))"
    using list_caps [where w = crowded_world, THEN conjunct2, THEN conjunct1]
    by (simp add: crowded_world_parts crowded_matches)
  have active: "get_active crowded_world = Json200 (event_details crowded_world)"
    using list_caps [where w = crowded_world, THEN conjunct2, THEN conjunct2, THEN conjunct1]
    by (simp add: crowded_world_parts crowded_matches)
  have location: "get_location crowded_world ''un'' = Json200 (event_details crowded_world)"
    using list_caps [where w = crowded_world and t = "''un''", THEN conjunct2, THEN conjunct2,
        THEN conjunct2, THEN conjunct1]
    by (simp add: crowded_world_parts crowded_matches)
  have category: "get_category crowded_world ''ec'' = Json200 (event_details crowded_world)"
    using list_caps [where w = crowded_world and t = "''ec''", THEN conjunct2, THEN conjunct2,
        THEN conjunct2, THEN conjunct2, THEN conjunct1]
    by (simp add: crowded_world_parts crowded_matches)
  have chat_past: "rendered (effects_of (handlePastEvents late_world 7) initial_state) =
     map (formatEventMessage plain_format plain_number)
       (take 5 (event_details crowded_world))"
    using list_caps [where w = late_world and c = 7 and s = initial_state, THEN conjunct2,
        THEN conjunct2, THEN conjunct2, THEN conjunct2, THEN conjunct2, THEN conjunct2,
        THEN conjunct2, THEN conjunct2, THEN conjunct2, THEN conjunct2, THEN conjunct1]
    by (simp add: crowded_world_parts crowded_matches)
  have chat_popular:
    "rendered (effects_of (handlePopularEvents crowded_world 7) initial_state) =
     map (formatEventMessage plain_format plain_number)
       (take 5 (event_details crowded_world))"
    using list_caps [where w = crowded_world and c = 7 and s = initial_state, THEN conjunct2,
        THEN conjunct2, THEN conjunct2, THEN conjunct2, THEN conjunct2, THEN conjunct2,
        THEN conjunct2, THEN conjunct2, THEN conjunct2, THEN conjunct2, THEN conjunct2,
        THEN conjunct1]
    by (simp add: crowded_world_parts crowded_matches)
  have chat_active:
    "rendered (effects_of (handleActiveHackathons crowded_world 7) initial_state) =
     map (formatEventMessage plain_format plain_number) (event_details crowded_world)"
    using list_caps [where w = crowded_world and c = 7 and s = initial_state, THEN conjunct2,
        THEN conjunct2, THEN conjunct2, THEN conjunct2, THEN conjunct2, THEN conjunct2,
        THEN conjunct2, THEN conjunct2, THEN conjunct2, THEN conjunct2, THEN conjunct2,
        THEN conjunct2, THEN conjunct1]
    by (simp add: crowded_world_parts crowded_matches)
  have chat_location:
    "rendered (effects_of (on_text crowded_world pune_message) awaiting_location_state) =
     map (formatEventMessage plain_format plain_number) (event_details crowded_world)"
    using list_caps [where w = crowded_world and s = awaiting_location_state
        and msg = pune_message, THEN conjunct2, THEN conjunct2, THEN conjunct2, THEN conjunct2,
        THEN conjunct2, THEN conjunct2, THEN conjunct2, THEN conjunct2, THEN conjunct2,
        THEN conjunct2, THEN conjunct2, THEN conjunct2, THEN conjunct2, THEN conjunct1]
    by (simp add: crowded_world_parts crowded_matches pending)
  show ?thesis
    using six past popular active location category chat_past chat_popular chat_active
      chat_location
    by blast
qed

lemma approved_rows:
  assumes "Eq_is_approved True \<in> set (filters q)"
  shows "set (store_rows w q) \<subseteq> {e \<in> set (event_details w). is_approved e}"
proof
  fix e
  assume "e \<in> set (store_rows w q)"
  then have e: "e \<in> set (event_details w)" "list_all (holds (ilike_op w) (fts w) e) (filters q)"
    using store_rows_subset [of w q] by auto
  from e(2) assms have "holds (ilike_op w) (fts w) e (Eq_is_approved True)"
    unfolding list_all_iff by blast
  with e(1) show "e \<in> {e \<in> set (event_details w). is_approved e}"
    by simp
qed

lemma approved_answer:
  assumes "respond (store_answer w q) = Json200 rows"
    and "Eq_is_approved True \<in> set (filters q)"
  shows "list_all is_approved rows"
proof -
  have "rows = store_rows w q"
    using assms(1) by (simp add: respond_def store_rows_def split: sum.splits)
  then show ?thesis
    using approved_rows [OF assms(2), of w] by (auto simp add: list_all_iff)
qed

lemma approved_rendered:
  assumes "prefix (rendered xs) (map f (store_rows w q))"
    and "Eq_is_approved True \<in> set (filters q)"
  shows "set (rendered xs) \<subseteq> f ` {e \<in> set (event_details w). is_approved e}"
proof -
  have "set (rendered xs) \<subseteq> f ` set (store_rows w q)"
    using set_mono_prefix [OF assms(1)] by simp
  then show ?thesis
    using approved_rows [OF assms(2), of w] by blast
qed

text \<open>
  Claim C6. Every record that one of the five list operations hands out has the approval
  flag set: the rows in the answer of each HTTP route, and the events that the chat
  handlers render, which are all renderings of approved rows of the table.
\<close>

theorem lists_hold_approved_only:
  "(get_active w = Json200 rows \<longrightarrow> list_all is_approved rows) \<and>
   (get_past w = Json200 rows \<longrightarrow> list_all is_approved rows) \<and>
   (get_location w t = Json200 rows \<longrightarrow> list_all is_approved rows) \<and>
   (get_category w t = Json200 rows \<longrightarrow> list_all is_approved rows) \<and>
   (get_popular w = Json200 rows \<longrightarrow> list_all is_approved rows) \<and>
   set (rendered (effects_of (handleActiveHackathons w c) s)) \<subseteq>
     formatEventMessage (moment_format w) (number_text w) ` {e \<in> set (event_details w). is_approved e} \<and>
   set (rendered (effects_of (handlePastEvents w c) s)) \<subseteq>
     formatEventMessage (moment_format w) (number_text w) ` {e \<in> set (event_details w). is_approved e} \<and>
   set (rendered (effects_of (handlePopularEvents w c) s)) \<subseteq>
     formatEventMessage (moment_format w) (number_text w) ` {e \<in> set (event_details w). is_approved e} \<and>
   set (rendered (effects_of (on_text w msg) s)) \<subseteq>
     formatEventMessage (moment_format w) (number_text w) ` {e \<in> set (event_details w). is_approved e}"
proof -
  have http:
    "get_active w = Json200 rows \<longrightarrow> list_all is_approved rows"
    "get_past w = Json200 rows \<longrightarrow> list_all is_approved rows"
    "get_location w t = Json200 rows \<longrightarrow> list_all is_approved rows"
    "get_category w t = Json200 rows \<longrightarrow> list_all is_approved rows"
    "get_popular w = Json200 rows \<longrightarrow> list_all is_approved rows"
    unfolding routes_as_queries
    by (auto elim!: approved_answer simp add: active_query_parts past_query_parts
        location_query_parts category_query_parts popular_query_parts)
  have active: "set (rendered (effects_of (handleActiveHackathons w c) s)) \<subseteq>
     formatEventMessage (moment_format w) (number_text w) ` {e \<in> set (event_details w). is_approved e}"
    using handleActiveHackathons_sends [of w c s]
    by (intro approved_rendered [of _ _ _ "active_query (clock w)"])
      (simp_all add: active_query_parts)
  have past: "set (rendered (effects_of (handlePastEvents w c) s)) \<subseteq>
     formatEventMessage (moment_format w) (number_text w) ` {e \<in> set (event_details w). is_approved e}"
    using handlePastEvents_sends [of w c s]
    by (intro approved_rendered [of _ _ _ "past_query (clock w)"])
      (simp_all add: past_query_parts)
  have popular: "set (rendered (effects_of (handlePopularEvents w c) s)) \<subseteq>
     formatEventMessage (moment_format w) (number_text w) ` {e \<in> set (event_details w). is_approved e}"
    using handlePopularEvents_sends [of w c s]
    by (intro approved_rendered [of _ _ _ popular_query])
      (simp_all add: popular_query_parts)
  have chat_text: "set (rendered (effects_of (on_text w msg) s)) \<subseteq>
     formatEventMessage (moment_format w) (number_text w) ` {e \<in> set (event_details w). is_approved e}"
  proof (cases "userSessions s (msg_chat_id msg)")
    case None
    then show ?thesis by (simp add: on_text_def effects_of_def)
  next
    case (Some sess)
    obtain st where sess: "sess = \<lparr>state = st\<rparr>" by (cases sess) simp
    show ?thesis
      using on_text_sends [OF Some refl, of w]
      by (cases st)
        (auto simp add: sess location_query_parts category_query_parts
          dest!: approved_rendered)
  qed
  show ?thesis
    using http active past popular chat_text by blast
qed

theorem lists_hold_approved_only_witness:
  "get_active draft_world = Json200 [example_event] \<and>
   list_all is_approved [example_event] \<and>
   \<not> is_approved draft_event \<and> draft_event \<in> set (event_details draft_world)"
proof -
  have "run_query il ts (active_query 250) [draft_event, example_event] = [example_event]"
    for il ts
    by (simp add: run_query_def active_query_def builder_defs draft_event_def example_event_def)
  then have active: "get_active draft_world = Json200 [example_event]"
    by (simp add: routes_as_queries respond_def store_answer_def draft_world_def
        example_world_def)
  show ?thesis
    using active lists_hold_approved_only [of draft_world "[example_event]"]
    by (simp add: draft_world_def draft_event_def example_event_def)
qed

section \<open>Claims about the presenter and the status route\<close>

lemma sublist_skip: "sublist xs zs \<Longrightarrow> sublist xs (ys @ zs)"
  by (metis sublist_append)

lemma sublist_chain:
  assumes "sublist xs ys" and "sublist ys zs"
  shows "sublist xs zs"
proof -
  obtain p q where ys: "ys = p @ xs @ q"
    using assms(1) by (auto simp add: sublist_def)
  obtain p' q' where "zs = p' @ ys @ q'"
    using assms(2) by (auto simp add: sublist_def)
  then have "zs = (p' @ p) @ xs @ (q @ q')"
    by (simp add: ys)
  then show ?thesis
    unfolding sublist_def by blast
qed

text \<open>A text is not found across a character that it does not hold.\<close>

lemma sublist_past_char:
  assumes "c \<notin> set r"
  shows "sublist r (u @ c # v) = (sublist r u \<or> sublist r v)"
proof
  assume "sublist r (u @ c # v)"
  then consider "sublist r u" | "sublist r (c # v)"
    | r1 r2 where "r = r1 @ r2" "suffix r1 u" "prefix r2 (c # v)"
    unfolding sublist_append by blast
  then show "sublist r u \<or> sublist r v"
  proof cases
    case 1
    then show ?thesis by simp
  next
    case 2
    then have "prefix r (c # v) \<or> sublist r v"
      by (simp add: sublist_Cons_right)
    then show ?thesis
      using assms by (cases r) auto
  next
    case 3
    show ?thesis
    proof (cases r2)
      case Nil
      then show ?thesis using 3 by auto
    next
      case (Cons x xs)
      then have "x = c" using 3(3) by simp
      then show ?thesis using assms 3(1) Cons by simp
    qed
  qed
next
  assume "sublist r u \<or> sublist r v"
  then show "sublist r (u @ c # v)"
    by (auto simp add: sublist_append sublist_Cons_right)
qed

lemma sublist_skip_char:
  assumes "c \<notin> set r"
  shows "sublist r (c # v) = (r = [] \<or> sublist r v)"
  using sublist_past_char [OF assms, of "[]" v] by auto

lemma rupee_chars: "set rupee = {CHR 0xE2, CHR 0x82, CHR 0xB9}" "rupee \<noteq> []"
  by (auto simp add: rupee_def)

lemma symbols_without_rupee:
  "\<not> sublist rupee memo" "\<not> sublist rupee pushpin" "\<not> sublist rupee calendar"
  "\<not> sublist rupee hourglass" "\<not> sublist rupee busts" "\<not> sublist rupee money_bag"
  "\<not> sublist rupee bullet" "\<not> sublist rupee label_sign" "\<not> sublist rupee heart"
  "\<not> sublist rupee link_sign"
  by (simp_all add: rupee_def memo_def pushpin_def calendar_def hourglass_def busts_def
      money_bag_def bullet_def label_sign_def heart_def link_sign_def sublist_Cons_right)

lemma register_text_rupee:
  "sublist rupee (register_text e) =
     (case redirection_link e of None \<Rightarrow> False | Some l \<Rightarrow> sublist rupee l)"
  by (cases "redirection_link e")
    (simp_all add: register_text_def rupee_chars sublist_past_char sublist_skip_char
      symbols_without_rupee)

lemma free_message_rupee:
  assumes "isEventFree e"
  shows "sublist rupee (formatEventMessage fmt num e) =
     (sublist rupee (event_title e) \<or> sublist rupee (event_description e) \<or>
      sublist rupee (event_location e) \<or>
      sublist rupee (fmt (event_startdate e) ''MMMM Do YYYY, h:mm a'') \<or>
      sublist rupee (num (event_duration e)) \<or> sublist rupee (num (team_size e)) \<or>
      sublist rupee (fmt (event_registration_startdate e) ''MMMM Do YYYY'') \<or>
      sublist rupee (fmt (event_registration_enddate e) ''MMMM Do YYYY'') \<or>
      (case redirection_link e of None \<Rightarrow> False | Some l \<Rightarrow> sublist rupee l) \<or>
      sublist rupee (organizer_name e) \<or> sublist rupee (organizer_email e) \<or>
      sublist rupee (organizer_contact e) \<or> sublist rupee (event_category e) \<or>
      sublist rupee (num (of_int (event_likes e))) \<or> sublist rupee (id_field e))"
  unfolding formatEventMessage_def price_text_def
  by (simp add: assms rupee_chars sublist_past_char sublist_skip_char
      symbols_without_rupee register_text_rupee)

lemma description_copied: "sublist (event_description e) (formatEventMessage fmt num e)"
  unfolding formatEventMessage_def
  by ((rule prefix_imp_sublist, (simp; fail)) | rule sublist_skip)+

lemma price_line:
  "sublist (''\<newline>'' @ money_bag @ '' <b>Price:</b> '' @ price_text num e @ ''\<newline>'')
     (formatEventMessage fmt num e)"
  unfolding formatEventMessage_def
  by ((rule prefix_imp_sublist, (simp; fail)) | rule sublist_skip)+

lemma price_copied: "sublist (price_text num e) (formatEventMessage fmt num e)"
  unfolding formatEventMessage_def
  by ((rule prefix_imp_sublist, (simp; fail)) | rule sublist_skip)+

lemma show_nat_digits: "set (show_nat n) \<subseteq> set ''0123456789''"
proof (induction n rule: show_nat.induct)
  case (1 n)
  have digit: "digit_char d \<in> set ''0123456789''" if "d < 10" for d
    unfolding digit_char_def using that by (intro nth_mem) simp
  show ?case
  proof (cases "n < 10")
    case True
    then show ?thesis
      using digit [of n] by (subst show_nat.simps) simp
  next
    case False
    then show ?thesis
      using "1.IH" digit [of "n mod 10"] by (subst show_nat.simps) simp
  qed
qed

lemma show_nat_rupee: "\<not> sublist rupee (show_nat n)"
proof
  assume "sublist rupee (show_nat n)"
  then have "set rupee \<subseteq> set (show_nat n)"
    by (rule set_mono_sublist)
  then have "CHR 0xE2 \<in> set ''0123456789''"
    using show_nat_digits [of n] by (auto simp add: rupee_def)
  then show False by simp
qed

text \<open>
  Claim C7, as the specification states it, says that the message for a free event holds
  no amount with the currency sign. The presenter copies the description as it is, so a
  free event whose description names a prize in rupees is rendered with that amount.
\<close>

theorem free_event_without_amount_counterexample:
  "isEventFree prize_event \<and>
   sublist (rupee @ ''500'') (formatEventMessage plain_format plain_number prize_event)"
proof -
  have "event_description prize_event = ''Win '' @ (rupee @ ''500'')"
    by (simp add: prize_event_def)
  then have "sublist (rupee @ ''500'') (event_description prize_event)"
    by (simp only: sublist_append_leftI)
  then have
    "sublist (rupee @ ''500'') (formatEventMessage plain_format plain_number prize_event)"
    by (rule sublist_chain [OF _ description_copied])
  then show ?thesis
    by (simp add: prize_event_def example_event_def)
qed

text \<open>
  Claim C7, amended. When the free flag is set, the price line of the message is the
  line \<open>Price: Free\<close>, the message does not depend on the stored price, and the
  currency sign occurs in the message exactly when it occurs in one of the texts the
  presenter copies: the title, the description, the location, a formatted date, a
  printed number other than the price, the link, the organizer's name, email and
  contact, the category or the identifier. When the free flag is not set, the price
  line is the currency sign followed by the printed price.
\<close>

theorem price_line_of_message:
  "(isEventFree e \<longrightarrow>
      sublist (''\<newline>'' @ money_bag @ '' <b>Price:</b> Free\<newline>'')
        (formatEventMessage fmt num e) \<and>
      sublist ''Free'' (formatEventMessage fmt num e) \<and>
      formatEventMessage fmt num (e\<lparr>event_price := p\<rparr>) = formatEventMessage fmt num e \<and>
      sublist rupee (formatEventMessage fmt num e) =
        (sublist rupee (event_title e) \<or> sublist rupee (event_description e) \<or>
         sublist rupee (event_location e) \<or>
         sublist rupee (fmt (event_startdate e) ''MMMM Do YYYY, h:mm a'') \<or>
         sublist rupee (num (event_duration e)) \<or> sublist rupee (num (team_size e)) \<or>
         sublist rupee (fmt (event_registration_startdate e) ''MMMM Do YYYY'') \<or>
         sublist rupee (fmt (event_registration_enddate e) ''MMMM Do YYYY'') \<or>
         (case redirection_link e of None \<Rightarrow> False | Some l \<Rightarrow> sublist rupee l) \<or>
         sublist rupee (organizer_name e) \<or> sublist rupee (organizer_email e) \<or>
         sublist rupee (organizer_contact e) \<or> sublist rupee (event_category e) \<or>
         sublist rupee (num (of_int (event_likes e))) \<or> sublist rupee (id_field e))) \<and>
   (\<not> isEventFree e \<longrightarrow>
      sublist (''\<newline>'' @ money_bag @ '' <b>Price:</b> '' @ rupee @ num (event_price e) @
               ''\<newline>'')
        (formatEventMessage fmt num e) \<and>
      sublist (rupee @ num (event_price e)) (formatEventMessage fmt num e))"
proof -
  have line: "sublist (''\<newline>'' @ money_bag @ '' <b>Price:</b> Free\<newline>'')
      (formatEventMessage fmt num e)" if "isEventFree e"
    using price_line [of num e fmt] that by (simp add: price_text_def)
  have free: "sublist ''Free'' (formatEventMessage fmt num e)" if "isEventFree e"
    using price_copied [of num e fmt] that by (simp only: price_text_def if_True)
  have same: "formatEventMessage fmt num (e\<lparr>event_price := p\<rparr>) = formatEventMessage fmt num e"
    if "isEventFree e"
    using that by (simp add: formatEventMessage_def price_text_def register_text_def)
  have paid_line: "sublist (''\<newline>'' @ money_bag @ '' <b>Price:</b> '' @ rupee @
      num (event_price e) @ ''\<newline>'') (formatEventMessage fmt num e)"
    if "\<not> isEventFree e"
    using price_line [of num e fmt] that by (simp add: price_text_def)
  have paid: "sublist (rupee @ num (event_price e)) (formatEventMessage fmt num e)"
    if "\<not> isEventFree e"
    using price_copied [of num e fmt] that by (simp only: price_text_def if_False)
  show ?thesis
    using line free same paid_line paid free_message_rupee [of e fmt num] by blast
qed

theorem price_line_of_message_witness:
  "isEventFree example_event \<and>
   sublist ''Free'' (formatEventMessage plain_format plain_number example_event) \<and>
   \<not> sublist rupee (formatEventMessage plain_format plain_number example_event) \<and>
   \<not> isEventFree paid_event \<and>
   sublist (rupee @ ''499'') (formatEventMessage plain_format plain_number paid_event)"
proof -
  have digits: "plain_number 499 = ''499''"
    by (simp add: plain_number_def show_nat.simps [of 499] show_nat.simps [of 49]
        show_nat.simps [of 4] digit_char_def)
  have free: "isEventFree example_event" and paid: "\<not> isEventFree paid_event"
    by (simp_all add: example_event_def paid_event_def)
  note t = price_line_of_message [of example_event plain_format plain_number]
  have word: "sublist ''Free'' (formatEventMessage plain_format plain_number example_event)"
    using t free by blast
  have "sublist rupee (formatEventMessage plain_format plain_number example_event) =
      (sublist rupee (event_title example_event) \<or>
       sublist rupee (event_description example_event) \<or>
       sublist rupee (event_location example_event) \<or>
       sublist rupee (plain_format (event_startdate example_event) ''MMMM Do YYYY, h:mm a'') \<or>
       sublist rupee (plain_number (event_duration example_event)) \<or>
       sublist rupee (plain_number (team_size example_event)) \<or>
       sublist rupee
         (plain_format (event_registration_startdate example_event) ''MMMM Do YYYY'') \<or>
       sublist rupee
         (plain_format (event_registration_enddate example_event) ''MMMM Do YYYY'') \<or>
       (case redirection_link example_event of
          None \<Rightarrow> False
        | Some l \<Rightarrow> sublist rupee l) \<or>
       sublist rupee (organizer_name example_event) \<or>
       sublist rupee (organizer_email example_event) \<or>
       sublist rupee (organizer_contact example_event) \<or>
       sublist rupee (event_category example_event) \<or>
       sublist rupee (plain_number (of_int (event_likes example_event))) \<or>
       sublist rupee (id_field example_event))"
    using t free by blast
  then have clean:
    "\<not> sublist rupee (formatEventMessage plain_format plain_number example_event)"
    by (simp add: example_event_def plain_format_def plain_number_def show_nat_rupee
        rupee_chars sublist_skip_char)
  have amount:
    "sublist (rupee @ ''499'') (formatEventMessage plain_format plain_number paid_event)"
    using price_line_of_message [of paid_event plain_format plain_number] paid
    by (simp add: paid_event_def digits)
  show ?thesis
    using free paid word clean amount by blast
qed

text \<open>
  Claim C9. The probe of the status route asks for one row and has no filter at all, so
  it does not restrict to approved rows. When the store answers, the response is 200
  and its database time is the creation time of the first row of the table, approved or
  not, and the time of the clock when the table is empty.
\<close>

theorem status_probe:
  "filters status_query = [] \<and> limit_rows status_query = Some 1 \<and>
   order_by status_query = None \<and> select_columns status_query = ''created_at'' \<and>
   (store_error w status_query = None \<longrightarrow>
      http_status (get_status w) = 200 \<and>
      database (get_status w) =
        Connected (case event_details w of [] \<Rightarrow> clock w | row # rest \<Rightarrow> created_at row))"
  by (simp add: status_query_def builder_defs get_status_def store_answer_def run_query_def
      split: list.splits)

theorem status_probe_witness:
  "\<not> is_approved draft_event \<and>
   database (get_status draft_world) = Connected (created_at draft_event) \<and>
   database (get_status empty_world) = Connected (clock empty_world)"
  using status_probe [of draft_world] status_probe [of empty_world]
  by (simp add: draft_world_def empty_world_def example_world_def draft_event_def)

section \<open>Claims about the search pattern\<close>

lemma like_match_percent: "like_match ''%'' t"
  by (induction t) simp_all

lemma like_match_literal:
  "wildcard_free a \<Longrightarrow> like_match (a @ p) t = (\<exists>u. t = a @ u \<and> like_match p u)"
proof (induction a arbitrary: t)
  case Nil
  show ?case by simp
next
  case (Cons c a)
  then have a: "wildcard_free a"
    and c: "c \<noteq> CHR ''%''" "c \<noteq> CHR ''_''" "c \<noteq> CHR 0x5C"
    by (auto simp add: wildcard_free_def)
  show ?case
    using c Cons.IH [OF a] by (cases t) auto
qed

lemma like_match_any_run:
  "like_match (CHR ''%'' # p) t = (\<exists>x u. t = x @ u \<and> like_match p u)"
proof (induction t)
  case Nil
  show ?case by simp
next
  case (Cons d ds)
  show ?case
  proof
    assume "like_match (CHR ''%'' # p) (d # ds)"
    then have "like_match p (d # ds) \<or> like_match (CHR ''%'' # p) ds" by simp
    then show "\<exists>x u. d # ds = x @ u \<and> like_match p u"
    proof
      assume "like_match p (d # ds)"
      then show ?thesis by (intro exI [of _ "[]"] exI [of _ "d # ds"]) simp
    next
      assume "like_match (CHR ''%'' # p) ds"
      then obtain x u where "ds = x @ u" "like_match p u" using Cons.IH by blast
      then show ?thesis by (intro exI [of _ "d # x"] exI [of _ u]) simp
    qed
  next
    assume "\<exists>x u. d # ds = x @ u \<and> like_match p u"
    then obtain x u where xu: "d # ds = x @ u" "like_match p u" by blast
    show "like_match (CHR ''%'' # p) (d # ds)"
    proof (cases x)
      case Nil
      then show ?thesis using xu by simp
    next
      case (Cons e x')
      then have "ds = x' @ u" using xu by simp
      then have "like_match (CHR ''%'' # p) ds" using Cons.IH xu(2) by blast
      then show ?thesis by simp
    qed
  qed
qed

lemma like_match_any_one:
  "like_match (CHR ''_'' # p) t = (\<exists>c u. t = c # u \<and> like_match p u)"
  by (cases t) simp_all

lemma like_match_Nil: "like_match [] u = (u = [])"
  by simp

lemma sublist_iff: "sublist xs ys = (\<exists>p q. ys = p @ xs @ q)"
  by (simp add: sublist_def)

lemma like_contains:
  assumes "wildcard_free a"
  shows "like_match (''%'' @ a @ ''%'') t = sublist a t"
proof -
  have "like_match (''%'' @ a @ ''%'') t = (\<exists>x u. t = x @ u \<and> (\<exists>v. u = a @ v))"
    using assms
    by (simp add: like_match_any_run like_match_literal like_match_Nil
        del: like_match.simps)
  also have "\<dots> = sublist a t"
    unfolding sublist_iff by auto
  finally show ?thesis .
qed

lemma like_contains_one:
  assumes "wildcard_free a" and "wildcard_free b"
  shows "like_match (''%'' @ (a @ ''_'' @ b) @ ''%'') t = (\<exists>c. sublist (a @ [c] @ b) t)"
proof -
  have "like_match (''%'' @ (a @ ''_'' @ b) @ ''%'') t =
      (\<exists>x u. t = x @ u \<and> (\<exists>v. u = a @ v \<and> (\<exists>c w. v = c # w \<and> (\<exists>y. w = b @ y))))"
    using assms
    by (simp add: like_match_any_run like_match_literal like_match_any_one
        like_match_Nil del: like_match.simps)
  also have "\<dots> = (\<exists>c. sublist (a @ [c] @ b) t)"
    unfolding sublist_iff by auto blast
  finally show ?thesis .
qed

lemma like_contains_run:
  assumes "wildcard_free a" and "wildcard_free b"
  shows "like_match (''%'' @ (a @ ''%'' @ b) @ ''%'') t = (\<exists>m. sublist (a @ m @ b) t)"
proof -
  have "like_match (''%'' @ (a @ ''%'' @ b) @ ''%'') t =
      (\<exists>x u. t = x @ u \<and> (\<exists>v. u = a @ v \<and> (\<exists>m w. v = m @ w \<and> (\<exists>y. w = b @ y))))"
    using assms
    by (simp add: like_match_any_run like_match_literal
        like_match_Nil del: like_match.simps)
  also have "\<dots> = (\<exists>m. sublist (a @ m @ b) t)"
    unfolding sublist_iff by auto blast
  finally show ?thesis .
qed

lemma lower_ascii_cases:
  "lower_ascii c = c \<or> lower_ascii c \<in> set ''abcdefghijklmnopqrstuvwxyz''"
proof (cases "map_of (zip ''ABCDEFGHIJKLMNOPQRSTUVWXYZ'' ''abcdefghijklmnopqrstuvwxyz'') c")
  case None
  show ?thesis unfolding lower_ascii_def None by simp
next
  case (Some l)
  then have "(c, l) \<in> set (zip ''ABCDEFGHIJKLMNOPQRSTUVWXYZ'' ''abcdefghijklmnopqrstuvwxyz'')"
    by (rule map_of_SomeD)
  then have "l \<in> set ''abcdefghijklmnopqrstuvwxyz''"
    by (rule set_zip_rightD)
  then show ?thesis unfolding lower_ascii_def Some by simp
qed

lemma lower_percent:
  "lower_ascii CHR ''%'' = CHR ''%''" "lower_ascii CHR ''_'' = CHR ''_''"
  "lower_ascii CHR ''*'' = CHR ''*''" "lower_ascii (CHR 0x5C) = CHR 0x5C"
  by (simp_all add: lower_ascii_def)

lemma lower_ascii_special:
  assumes "k = CHR ''%'' \<or> k = CHR ''_'' \<or> k = CHR 0x5C \<or> k = CHR ''*''"
  shows "(lower_ascii c = k) = (c = k)"
proof
  assume "lower_ascii c = k"
  moreover have "k \<notin> set ''abcdefghijklmnopqrstuvwxyz''"
    using assms by auto
  ultimately show "c = k"
    using lower_ascii_cases [of c] by auto
next
  assume "c = k"
  then show "lower_ascii c = k"
    using assms by (elim disjE) (simp_all add: lower_percent)
qed

lemma special_in_lower:
  assumes "k = CHR ''%'' \<or> k = CHR ''_'' \<or> k = CHR 0x5C \<or> k = CHR ''*''"
  shows "(k \<in> lower_ascii ` set a) = (k \<in> set a)"
proof (induction a)
  case Nil
  show ?case by simp
next
  case (Cons c a)
  have "(k = lower_ascii c) = (k = c)"
    using lower_ascii_special [OF assms, of c] by auto
  then show ?case
    using Cons.IH by simp
qed

lemma wildcard_free_lower: "wildcard_free (map lower_ascii a) = wildcard_free a"
  unfolding wildcard_free_def by (simp add: special_in_lower)

lemma star_free: "wildcard_free a \<Longrightarrow> map star_to_percent a = a"
  by (induction a) (auto simp add: wildcard_free_def star_to_percent_def)

lemma star_percent:
  "star_to_percent CHR ''%'' = CHR ''%''" "star_to_percent CHR ''_'' = CHR ''_''"
  by (simp_all add: star_to_percent_def)

lemma ilike_contains:
  "wildcard_free a \<Longrightarrow>
   ilike_match (''%'' @ a @ ''%'') t = sublist (map lower_ascii a) (map lower_ascii t)"
  using like_contains [of "map lower_ascii a" "map lower_ascii t"]
  by (simp add: ilike_match_def wildcard_free_lower lower_percent star_free star_percent)

lemma ilike_contains_one:
  "wildcard_free a \<Longrightarrow> wildcard_free b \<Longrightarrow>
   ilike_match (''%'' @ (a @ ''_'' @ b) @ ''%'') t =
     (\<exists>c. sublist (map lower_ascii a @ [c] @ map lower_ascii b) (map lower_ascii t))"
  using like_contains_one [of "map lower_ascii a" "map lower_ascii b" "map lower_ascii t"]
  by (simp add: ilike_match_def wildcard_free_lower lower_percent star_free star_percent)

lemma ilike_contains_run:
  "wildcard_free a \<Longrightarrow> wildcard_free b \<Longrightarrow>
   ilike_match (''%'' @ (a @ ''%'' @ b) @ ''%'') t =
     (\<exists>m. sublist (map lower_ascii a @ m @ map lower_ascii b) (map lower_ascii t))"
  using like_contains_run [of "map lower_ascii a" "map lower_ascii b" "map lower_ascii t"]
  by (simp add: ilike_match_def wildcard_free_lower lower_percent star_free star_percent)

lemma ilike_any: "ilike_match (''%'' @ ''%'' @ ''%'') t"
  using ilike_contains_run [of "[]" "[]" t]
  by (simp add: wildcard_free_def) (rule exI [of _ "[]"], simp)

lemma ilike_some: "ilike_match (''%'' @ ''_'' @ ''%'') t = (t \<noteq> [])"
proof -
  have "(\<exists>c. sublist [c] (map lower_ascii t)) = (t \<noteq> [])"
  proof (cases t)
    case Nil
    then show ?thesis by simp
  next
    case (Cons d ds)
    have "sublist [lower_ascii d] (map lower_ascii (d # ds))"
      by (rule prefix_imp_sublist) simp
    then show ?thesis using Cons by blast
  qed
  then show ?thesis
    using ilike_contains_one [of "[]" "[]" t] by (simp add: wildcard_free_def)
qed

lemma ascii_pattern: "ascii (''%'' @ t @ ''%'') = ascii t"
  by (simp add: ascii_def)

lemma ascii_append: "ascii (a @ b) = (ascii a \<and> ascii b)"
  by (simp add: ascii_def)

lemma ascii_wildcards: "ascii ''_''" "ascii ''%''"
  by (simp_all add: ascii_def)

lemma sql_ilike_pattern:
  assumes "sql_ilike il" and "ascii t" and "ascii x"
  shows "il (''%'' @ t @ ''%'') x = ilike_match (''%'' @ t @ ''%'') x"
  using assms ascii_pattern [of t] unfolding sql_ilike_def by blast

lemma filter_agree:
  assumes "list_all (\<lambda>e. P e = Q e) rows"
  shows "filter P rows = filter Q rows"
  using assms by (induction rows) simp_all

lemma sql_ilike_rows:
  assumes "sql_ilike il" and "ascii t" and "list_all (\<lambda>e. ascii (f e)) rows"
  shows "filter (\<lambda>e. il (''%'' @ t @ ''%'') (f e) \<and> is_approved e) rows =
         filter (\<lambda>e. ilike_match (''%'' @ t @ ''%'') (f e) \<and> is_approved e) rows"
proof (rule filter_agree)
  show "list_all (\<lambda>e. (il (''%'' @ t @ ''%'') (f e) \<and> is_approved e) =
      (ilike_match (''%'' @ t @ ''%'') (f e) \<and> is_approved e)) rows"
    using assms(3) sql_ilike_pattern [OF assms(1) assms(2)]
    by (induction rows) simp_all
qed

lemma ilike_single:
  "ilike_match ''%_%'' t = (t \<noteq> [])" "ilike_match ''%%%'' t"
  using ilike_some [of t] ilike_any [of t] by simp_all

lemma single_wildcard_rows:
  assumes "sql_ilike il" and "list_all (\<lambda>e. ascii (f e)) rows"
  shows "filter (\<lambda>e. il ''%_%'' (f e) \<and> is_approved e) rows =
           filter (\<lambda>e. f e \<noteq> [] \<and> is_approved e) rows"
    and "filter (\<lambda>e. il ''%%%'' (f e) \<and> is_approved e) rows = filter is_approved rows"
  using sql_ilike_rows [OF assms(1) ascii_wildcards(1) assms(2)]
    sql_ilike_rows [OF assms(1) ascii_wildcards(2) assms(2)]
  by (simp_all add: ilike_single)

lemma filter_routes:
  "get_location w t =
     (case store_error w (location_query t) of
        Some m \<Rightarrow> Json500 m
      | None \<Rightarrow>
          Json200 (filter (\<lambda>e. ilike_op w (''%'' @ t @ ''%'') (event_location e) \<and>
                              is_approved e) (event_details w)))"
  "get_category w t =
     (case store_error w (category_query t) of
        Some m \<Rightarrow> Json500 m
      | None \<Rightarrow>
          Json200 (filter (\<lambda>e. ilike_op w (''%'' @ t @ ''%'') (event_category e) \<and>
                              is_approved e) (event_details w)))"
  by (simp_all add: routes_as_queries respond_answer query_rows split: option.splits)

text \<open>
  Claim C10. The two filters, on the chat and on the HTTP surface, hand the store the
  pattern made of a percent sign, the search text as it is and a percent sign: the route
  answers with, and the chat handler searches for and renders, the approved rows whose
  field the store's pattern operator matches against that pattern. Nothing is escaped.
  So, for a store that reads patterns as SQL does, a percent sign or an underscore of
  the search text is a wildcard: the search text \<open>_\<close> selects every approved row whose
  field is not empty and the search text \<open>%\<close> every approved row, whether the field
  holds such a character or not. In general a search text without a percent sign, an
  underscore, a star or a backslash selects the fields that contain it, letters compared
  without case; an underscore between two such texts stands for any one character, and
  a percent sign for any run of characters.
\<close>

theorem pattern_is_not_escaped:
  "filters (location_query t) =
     [Ilike event_location_col (''%'' @ t @ ''%''), Eq_is_approved True] \<and>
   filters (category_query t) =
     [Ilike event_category_col (''%'' @ t @ ''%''), Eq_is_approved True] \<and>
   get_location w t =
     (case store_error w (location_query t) of
        Some m \<Rightarrow> Json500 m
      | None \<Rightarrow>
          Json200 (filter (\<lambda>e. ilike_op w (''%'' @ t @ ''%'') (event_location e) \<and>
                              is_approved e) (event_details w))) \<and>
   get_category w t =
     (case store_error w (category_query t) of
        Some m \<Rightarrow> Json500 m
      | None \<Rightarrow>
          Json200 (filter (\<lambda>e. ilike_op w (''%'' @ t @ ''%'') (event_category e) \<and>
                              is_approved e) (event_details w))) \<and>
   (userSessions s (msg_chat_id msg) = Some \<lparr>state = AWAITING_LOCATION\<rparr> \<longrightarrow>
      searches (effects_of (on_text w msg) s) =
        (if telegram w (length (effects s)) then [location_query (msg_text msg)] else [])) \<and>
   (userSessions s (msg_chat_id msg) = Some \<lparr>state = AWAITING_CATEGORY\<rparr> \<longrightarrow>
      searches (effects_of (on_text w msg) s) =
        (if telegram w (length (effects s)) then [category_query (msg_text msg)] else [])) \<and>
   ((\<forall>n. telegram w n) \<and>
    userSessions s (msg_chat_id msg) = Some \<lparr>state = AWAITING_LOCATION\<rparr> \<longrightarrow>
      rendered (effects_of (on_text w msg) s) =
        (case store_error w (location_query (msg_text msg)) of
           Some m \<Rightarrow> []
         | None \<Rightarrow>
             map (formatEventMessage (moment_format w) (number_text w))
               (filter (\<lambda>e. ilike_op w (''%'' @ msg_text msg @ ''%'') (event_location e) \<and>
                            is_approved e) (event_details w)))) \<and>
   ((\<forall>n. telegram w n) \<and>
    userSessions s (msg_chat_id msg) = Some \<lparr>state = AWAITING_CATEGORY\<rparr> \<longrightarrow>
      rendered (effects_of (on_text w msg) s) =
        (case store_error w (category_query (msg_text msg)) of
           Some m \<Rightarrow> []
         | None \<Rightarrow>
             map (formatEventMessage (moment_format w) (number_text w))
               (filter (\<lambda>e. ilike_op w (''%'' @ msg_text msg @ ''%'') (event_category e) \<and>
                            is_approved e) (event_details w)))) \<and>
   (sql_ilike (ilike_op w) \<and> list_all (\<lambda>e. ascii (event_location e)) (event_details w) \<and>
    store_error w (location_query ''_'') = None \<longrightarrow>
      get_location w ''_'' =
        Json200 (filter (\<lambda>e. event_location e \<noteq> [] \<and> is_approved e) (event_details w))) \<and>
   (sql_ilike (ilike_op w) \<and> list_all (\<lambda>e. ascii (event_location e)) (event_details w) \<and>
    store_error w (location_query ''%'') = None \<longrightarrow>
      get_location w ''%'' = Json200 (filter is_approved (event_details w))) \<and>
   (sql_ilike (ilike_op w) \<and> list_all (\<lambda>e. ascii (event_category e)) (event_details w) \<and>
    store_error w (category_query ''_'') = None \<longrightarrow>
      get_category w ''_'' =
        Json200 (filter (\<lambda>e. event_category e \<noteq> [] \<and> is_approved e) (event_details w))) \<and>
   (sql_ilike (ilike_op w) \<and> list_all (\<lambda>e. ascii (event_category e)) (event_details w) \<and>
    store_error w (category_query ''%'') = None \<longrightarrow>
      get_category w ''%'' = Json200 (filter is_approved (event_details w))) \<and>
   (sql_ilike (ilike_op w) \<and> ascii t \<and> ascii x \<and> wildcard_free t \<longrightarrow>
      ilike_op w (''%'' @ t @ ''%'') x = sublist (map lower_ascii t) (map lower_ascii x)) \<and>
   (sql_ilike (ilike_op w) \<and> ascii a \<and> ascii b \<and> ascii x \<and>
    wildcard_free a \<and> wildcard_free b \<longrightarrow>
      ilike_op w (''%'' @ (a @ ''_'' @ b) @ ''%'') x =
        (\<exists>c. sublist (map lower_ascii a @ [c] @ map lower_ascii b) (map lower_ascii x))) \<and>
   (sql_ilike (ilike_op w) \<and> ascii a \<and> ascii b \<and> ascii x \<and>
    wildcard_free a \<and> wildcard_free b \<longrightarrow>
      ilike_op w (''%'' @ (a @ ''%'' @ b) @ ''%'') x =
        (\<exists>m. sublist (map lower_ascii a @ m @ map lower_ascii b) (map lower_ascii x)))"
proof -
  have built:
    "filters (location_query t) =
       [Ilike event_location_col (''%'' @ t @ ''%''), Eq_is_approved True]"
    "filters (category_query t) =
       [Ilike event_category_col (''%'' @ t @ ''%''), Eq_is_approved True]"
    by (simp_all add: location_query_parts category_query_parts)
  note routes = filter_routes [of w t]
  have chat_searches:
    "userSessions s (msg_chat_id msg) = Some \<lparr>state = AWAITING_LOCATION\<rparr> \<longrightarrow>
      searches (effects_of (on_text w msg) s) =
        (if telegram w (length (effects s)) then [location_query (msg_text msg)] else [])"
    "userSessions s (msg_chat_id msg) = Some \<lparr>state = AWAITING_CATEGORY\<rparr> \<longrightarrow>
      searches (effects_of (on_text w msg) s) =
        (if telegram w (length (effects s)) then [category_query (msg_text msg)] else [])"
    using on_text_searches [of s msg "\<lparr>state = AWAITING_LOCATION\<rparr>" _ w]
      on_text_searches [of s msg "\<lparr>state = AWAITING_CATEGORY\<rparr>" _ w]
    by simp_all
  have chat_location:
    "(\<forall>n. telegram w n) \<and>
     userSessions s (msg_chat_id msg) = Some \<lparr>state = AWAITING_LOCATION\<rparr> \<longrightarrow>
      rendered (effects_of (on_text w msg) s) =
        (case store_error w (location_query (msg_text msg)) of
           Some m \<Rightarrow> []
         | None \<Rightarrow>
             map (formatEventMessage (moment_format w) (number_text w))
               (filter (\<lambda>e. ilike_op w (''%'' @ msg_text msg @ ''%'') (event_location e) \<and>
                            is_approved e) (event_details w)))"
    using on_text_sends_all [of s msg "\<lparr>state = AWAITING_LOCATION\<rparr>" _ w]
    by (auto simp add: store_rows_answer query_rows split: option.splits)
  have chat_category:
    "(\<forall>n. telegram w n) \<and>
     userSessions s (msg_chat_id msg) = Some \<lparr>state = AWAITING_CATEGORY\<rparr> \<longrightarrow>
      rendered (effects_of (on_text w msg) s) =
        (case store_error w (category_query (msg_text msg)) of
           Some m \<Rightarrow> []
         | None \<Rightarrow>
             map (formatEventMessage (moment_format w) (number_text w))
               (filter (\<lambda>e. ilike_op w (''%'' @ msg_text msg @ ''%'') (event_category e) \<and>
                            is_approved e) (event_details w)))"
    using on_text_sends_all [of s msg "\<lparr>state = AWAITING_CATEGORY\<rparr>" _ w]
    by (auto simp add: store_rows_answer query_rows split: option.splits)
  have wild_location:
    "sql_ilike (ilike_op w) \<and> list_all (\<lambda>e. ascii (event_location e)) (event_details w) \<and>
     store_error w (location_query ''_'') = None \<longrightarrow>
      get_location w ''_'' =
        Json200 (filter (\<lambda>e. event_location e \<noteq> [] \<and> is_approved e) (event_details w))"
    "sql_ilike (ilike_op w) \<and> list_all (\<lambda>e. ascii (event_location e)) (event_details w) \<and>
     store_error w (location_query ''%'') = None \<longrightarrow>
      get_location w ''%'' = Json200 (filter is_approved (event_details w))"
    using single_wildcard_rows [of "ilike_op w" event_location "event_details w"]
    by (simp_all add: filter_routes)
  have wild_category:
    "sql_ilike (ilike_op w) \<and> list_all (\<lambda>e. ascii (event_category e)) (event_details w) \<and>
     store_error w (category_query ''_'') = None \<longrightarrow>
      get_category w ''_'' =
        Json200 (filter (\<lambda>e. event_category e \<noteq> [] \<and> is_approved e) (event_details w))"
    "sql_ilike (ilike_op w) \<and> list_all (\<lambda>e. ascii (event_category e)) (event_details w) \<and>
     store_error w (category_query ''%'') = None \<longrightarrow>
      get_category w ''%'' = Json200 (filter is_approved (event_details w))"
    using single_wildcard_rows [of "ilike_op w" event_category "event_details w"]
    by (simp_all add: filter_routes)
  have plain:
    "sql_ilike (ilike_op w) \<and> ascii t \<and> ascii x \<and> wildcard_free t \<longrightarrow>
      ilike_op w (''%'' @ t @ ''%'') x = sublist (map lower_ascii t) (map lower_ascii x)"
    using sql_ilike_pattern [of "ilike_op w" t x] ilike_contains [of t x] by blast
  have one:
    "sql_ilike (ilike_op w) \<and> ascii a \<and> ascii b \<and> ascii x \<and>
     wildcard_free a \<and> wildcard_free b \<longrightarrow>
      ilike_op w (''%'' @ (a @ ''_'' @ b) @ ''%'') x =
        (\<exists>c. sublist (map lower_ascii a @ [c] @ map lower_ascii b) (map lower_ascii x))"
  proof (intro impI, elim conjE)
    assume h: "sql_ilike (ilike_op w)" "ascii a" "ascii b" "ascii x"
      "wildcard_free a" "wildcard_free b"
    have "ascii (a @ ''_'' @ b)"
      using h(2,3) ascii_wildcards(1) by (simp only: ascii_append)
    then show "ilike_op w (''%'' @ (a @ ''_'' @ b) @ ''%'') x =
        (\<exists>c. sublist (map lower_ascii a @ [c] @ map lower_ascii b) (map lower_ascii x))"
      using sql_ilike_pattern [OF h(1) _ h(4), of "a @ ''_'' @ b"]
        ilike_contains_one [OF h(5,6), of x]
      by blast
  qed
  have run:
    "sql_ilike (ilike_op w) \<and> ascii a \<and> ascii b \<and> ascii x \<and>
     wildcard_free a \<and> wildcard_free b \<longrightarrow>
      ilike_op w (''%'' @ (a @ ''%'' @ b) @ ''%'') x =
        (\<exists>m. sublist (map lower_ascii a @ m @ map lower_ascii b) (map lower_ascii x))"
  proof (intro impI, elim conjE)
    assume h: "sql_ilike (ilike_op w)" "ascii a" "ascii b" "ascii x"
      "wildcard_free a" "wildcard_free b"
    have "ascii (a @ ''%'' @ b)"
      using h(2,3) ascii_wildcards(2) by (simp only: ascii_append)
    then show "ilike_op w (''%'' @ (a @ ''%'' @ b) @ ''%'') x =
        (\<exists>m. sublist (map lower_ascii a @ m @ map lower_ascii b) (map lower_ascii x))"
      using sql_ilike_pattern [OF h(1) _ h(4), of "a @ ''%'' @ b"]
        ilike_contains_run [OF h(5,6), of x]
      by blast
  qed
  show ?thesis
    using built routes chat_searches chat_location chat_category wild_location
      wild_category plain one run
    by blast
qed

theorem pattern_is_not_escaped_witness:
  "sql_ilike (ilike_op example_world) \<and>
   get_location example_world ''_'' = Json200 [example_event] \<and>
   event_location example_event = ''Pune'' \<and>
   searches (effects_of (on_text example_world pune_message) awaiting_location_state) =
     [location_query ''Pune''] \<and>
   ilike_op example_world ''%P_ne%'' ''Pune'' \<and> \<not> sublist ''p_ne'' ''pune''"
proof -
  have store: "sql_ilike (ilike_op example_world)"
    by (simp add: example_world_def sql_ilike_def)
  have plain: "wildcard_free ''P''" "wildcard_free ''ne''"
    by (simp_all add: wildcard_free_def)
  have texts: "ascii ''P''" "ascii ''ne''" "ascii ''Pune''"
    by (simp_all add: ascii_def)
  have lower: "map lower_ascii ''P'' = ''p''" "map lower_ascii ''ne'' = ''ne''"
    "map lower_ascii ''Pune'' = ''pune''"
    by (simp_all add: lower_ascii_def)
  have one: "sublist (''p'' @ [CHR ''u''] @ ''ne'') ''pune''"
    by simp
  have literal: "\<not> sublist ''p_ne'' ''pune''"
    by (simp add: sublist_Cons_right)
  have world: "event_details example_world = [example_event]"
    "store_error example_world (location_query ''_'') = None"
    "telegram example_world 0"
    by (simp_all add: example_world_def)
  have place: "event_location example_event = ''Pune''" "is_approved example_event"
    by (simp_all add: example_event_def)
  note t = pattern_is_not_escaped [where w = example_world and s = awaiting_location_state
      and msg = pune_message and a = "''P''" and b = "''ne''" and x = "''Pune''"]
  have rows: "get_location example_world ''_'' = Json200 [example_event]"
    using t [
      THEN conjunct2, THEN conjunct2, THEN conjunct2, THEN conjunct2, THEN conjunct2,
      THEN conjunct2, THEN conjunct2, THEN conjunct2, THEN conjunct1]
      store world place texts(3)
    by simp
  have chat:
    "searches (effects_of (on_text example_world pune_message) awaiting_location_state) =
       [location_query ''Pune'']"
    using t [
      THEN conjunct2, THEN conjunct2, THEN conjunct2, THEN conjunct2, THEN conjunct1]
      world(3)
    by (simp add: awaiting_location_state_def pune_message_def)
  have "ilike_op example_world (''%'' @ (''P'' @ ''_'' @ ''ne'') @ ''%'') ''Pune'' =
      (\<exists>c. sublist (map lower_ascii ''P'' @ [c] @ map lower_ascii ''ne'')
         (map lower_ascii ''Pune''))"
    using t [
      THEN conjunct2, THEN conjunct2, THEN conjunct2, THEN conjunct2, THEN conjunct2,
      THEN conjunct2, THEN conjunct2, THEN conjunct2, THEN conjunct2, THEN conjunct2,
      THEN conjunct2, THEN conjunct2, THEN conjunct2, THEN conjunct1]
      store plain texts
    by blast
  then have wild: "ilike_op example_world ''%P_ne%'' ''Pune''"
    using one by (simp only: lower append.simps) (simp, blast)
  show ?thesis
    using store rows place(1) chat wild literal by blast
qed

end
